theory Spec2Isabelle
  imports Main
begin

section \<open>Python values\<close>

text \<open>
  A recipe payload is a JSON document held in a Python \<^verbatim>\<open>dict\<close>. A dict is an
  association list in insertion order (its keys are distinct), a list is a list,
  \<^verbatim>\<open>None\<close> is \<open>JNull\<close>. Numbers are Python's unbounded integers; floating point
  numbers are not part of the model. Strings are lists of characters in the ASCII
  range: for them \<^verbatim>\<open>str.lower\<close> and \<^verbatim>\<open>str.split\<close> are as below.
\<close>

datatype json = JNull | JBool bool | JNum int | JStr string
  | JArr "json list" | JObj "(string \<times> json) list"

text \<open>The exceptions of the repository's code paths.\<close>

datatype error = KeyError | TypeError | AttributeError | ValueError | OverflowError
  | InterfaceError | IntegrityError | OperationalError

definition and_then :: "error + 'a \<Rightarrow> ('a \<Rightarrow> error + 'b) \<Rightarrow> error + 'b" where
  "and_then m f = (case m of Inl e \<Rightarrow> Inl e | Inr x \<Rightarrow> f x)"

text \<open>Truth value testing (\<^verbatim>\<open>if x:\<close>, \<^verbatim>\<open>x or y\<close>).\<close>

definition truthy :: "json \<Rightarrow> bool" where
  "truthy v = (case v of JNull \<Rightarrow> False | JBool b \<Rightarrow> b | JNum n \<Rightarrow> n \<noteq> 0
     | JStr s \<Rightarrow> s \<noteq> [] | JArr xs \<Rightarrow> xs \<noteq> [] | JObj kvs \<Rightarrow> kvs \<noteq> [])"

text \<open>\<^verbatim>\<open>x.get(k)\<close> and \<^verbatim>\<open>x.get(k, default)\<close>: only a dict has the method.\<close>

definition py_get_default :: "json \<Rightarrow> string \<Rightarrow> json \<Rightarrow> error + json" where
  "py_get_default x k dflt = (case x of
     JObj kvs \<Rightarrow> Inr (case map_of kvs k of None \<Rightarrow> dflt | Some v \<Rightarrow> v)
   | _ \<Rightarrow> Inl AttributeError)"

definition py_get :: "json \<Rightarrow> string \<Rightarrow> error + json" where
  "py_get x k = py_get_default x k JNull"

text \<open>\<^verbatim>\<open>x[k]\<close> with a string key.\<close>

definition py_getitem :: "json \<Rightarrow> string \<Rightarrow> error + json" where
  "py_getitem x k = (case x of
     JObj kvs \<Rightarrow> (case map_of kvs k of None \<Rightarrow> Inl KeyError | Some v \<Rightarrow> Inr v)
   | _ \<Rightarrow> Inl TypeError)"

text \<open>What a \<^verbatim>\<open>for\<close> loop iterates over: a dict yields its keys, a string its characters.\<close>

definition py_iter :: "json \<Rightarrow> error + json list" where
  "py_iter x = (case x of
     JArr xs \<Rightarrow> Inr xs
   | JObj kvs \<Rightarrow> Inr (map (\<lambda>kv. JStr (fst kv)) kvs)
   | JStr s \<Rightarrow> Inr (map (\<lambda>c. JStr [c]) s)
   | _ \<Rightarrow> Inl TypeError)"

subsection \<open>Strings\<close>

definition is_space :: "char \<Rightarrow> bool" where
  "is_space c = (let n = (of_char c :: nat) in (9 \<le> n \<and> n \<le> 13) \<or> (28 \<le> n \<and> n \<le> 32))"

definition lower_char :: "char \<Rightarrow> char" where
  "lower_char c =
     (let n = (of_char c :: nat) in if 65 \<le> n \<and> n \<le> 90 then char_of (n + 32) else c)"

definition py_lower :: "string \<Rightarrow> string" where
  "py_lower s = map lower_char s"

lemma dropWhile_word_shorter:
  "dropWhile P s \<noteq> [] \<Longrightarrow>
   length (dropWhile (\<lambda>c. \<not> P c) (dropWhile P s)) < length s"
proof -
  assume ne: "dropWhile P s \<noteq> []"
  then obtain c cs where x: "dropWhile P s = c # cs" by (cases "dropWhile P s") auto
  have "\<not> P c" using hd_dropWhile[OF ne] x by simp
  then have "length (dropWhile (\<lambda>c. \<not> P c) (c # cs)) \<le> length cs"
    by (simp add: length_dropWhile_le)
  moreover have "length (c # cs) \<le> length s"
    using length_dropWhile_le[of P s] x by simp
  ultimately show ?thesis using x by simp
qed

text \<open>
  \<^verbatim>\<open>s.split()\<close>: skip whitespace, stop at the end of the string, otherwise take the
  characters up to the next whitespace as one word, and go on behind it.
\<close>

function py_split :: "string \<Rightarrow> string list" where
  "py_split s = (let s' = dropWhile is_space s in
     if s' = [] then []
     else takeWhile (\<lambda>c. \<not> is_space c) s' # py_split (dropWhile (\<lambda>c. \<not> is_space c) s'))"
  by pat_completeness auto
termination
  by (relation "measure length") (auto simp: dropWhile_word_shorter)

fun py_join :: "string \<Rightarrow> string list \<Rightarrow> string" where
  "py_join sep [] = []"
| "py_join sep [x] = x"
| "py_join sep (x # y # ys) = x @ sep @ py_join sep (y # ys)"

text \<open>\<^verbatim>\<open>str(n)\<close> of an integer: its decimal digits.\<close>

definition digit :: "nat \<Rightarrow> char" where
  "digit n = char_of (48 + n)"

function dec_nat :: "nat \<Rightarrow> string" where
  "dec_nat n = (if n < 10 then [digit n] else dec_nat (n div 10) @ [digit (n mod 10)])"
  by pat_completeness auto
termination
  by (relation "measure id") auto

definition dec :: "int \<Rightarrow> string" where
  "dec i = (if i < 0 then CHR ''-'' # dec_nat (nat (- i)) else dec_nat (nat i))"

text \<open>
  \<^verbatim>\<open>repr\<close> of a string: in single quotes, or in double quotes when the string has
  a single quote and no double quote; the backslash and the quote in use are
  escaped, tab, newline and carriage return are written \<^verbatim>\<open>\t\<close>, \<^verbatim>\<open>\n\<close>,
  \<^verbatim>\<open>\r\<close>, and the other control characters \<^verbatim>\<open>\xhh\<close>.
\<close>

definition hex_digit :: "nat \<Rightarrow> char" where
  "hex_digit n = (if n < 10 then char_of (48 + n) else char_of (87 + n))"

definition repr_char :: "char \<Rightarrow> char \<Rightarrow> string" where
  "repr_char quote c =
     (let n = (of_char c :: nat) in
      if c = quote \<or> n = 92 then [char_of (92 :: nat), c]
      else if n = 9 then [char_of (92 :: nat), CHR ''t'']
      else if n = 10 then [char_of (92 :: nat), CHR ''n'']
      else if n = 13 then [char_of (92 :: nat), CHR ''r'']
      else if n < 32 \<or> n = 127 then
        [char_of (92 :: nat), CHR ''x'', hex_digit (n div 16), hex_digit (n mod 16)]
      else [c])"

definition repr_str :: "string \<Rightarrow> string" where
  "repr_str s =
     (let quote = (if char_of (39 :: nat) \<in> set s \<and> char_of (34 :: nat) \<notin> set s
                   then char_of (34 :: nat) else char_of (39 :: nat))
      in [quote] @ concat (map (repr_char quote) s) @ [quote])"

fun py_repr :: "json \<Rightarrow> string" where
  "py_repr JNull = ''None''"
| "py_repr (JBool b) = (if b then ''True'' else ''False'')"
| "py_repr (JNum n) = dec n"
| "py_repr (JStr s) = repr_str s"
| "py_repr (JArr xs) = ''['' @ py_join '', '' (map py_repr xs) @ '']''"
| "py_repr (JObj kvs) =
     ''{'' @ py_join '', '' (map (\<lambda>(k, v). repr_str k @ '': '' @ py_repr v) kvs) @ ''}''"

text \<open>
  Python refuses to write an integer of more than 4300 digits as a decimal text
  (\<^verbatim>\<open>ValueError\<close>); \<open>ints_ok\<close> says that a value has no such integer.
\<close>

fun ints_ok :: "json \<Rightarrow> bool" where
  "ints_ok (JNum n) = (length (dec_nat (nat \<bar>n\<bar>)) \<le> 4300)"
| "ints_ok (JArr xs) = list_all ints_ok xs"
| "ints_ok (JObj kvs) = list_all (\<lambda>(k, v). ints_ok v) kvs"
| "ints_ok _ = True"

text \<open>\<^verbatim>\<open>str(x)\<close>: a string is itself, any other value gives its \<^verbatim>\<open>repr\<close>.\<close>

definition py_str :: "json \<Rightarrow> error + string" where
  "py_str x = (if ints_ok x then Inr (case x of JStr s \<Rightarrow> s | _ \<Rightarrow> py_repr x)
               else Inl ValueError)"

text \<open>
  \<^verbatim>\<open>json.dumps(x)\<close> fails on such an integer too. The text it returns is only ever
  read back by \<^verbatim>\<open>json.loads\<close>, and is represented by the document it encodes.
\<close>

definition json_dumps :: "json \<Rightarrow> error + json" where
  "json_dumps x = (if ints_ok x then Inr x else Inl ValueError)"

section \<open>The canonical ingredient key\<close>

text \<open>
  \<^verbatim>\<open>_canonical_ingredient_key\<close>. The loop over the languages is \<open>first_title\<close>. A
  title that is true but not a string has no \<^verbatim>\<open>lower\<close> method.
\<close>

fun first_title :: "json \<Rightarrow> string list \<Rightarrow> error + string" where
  "first_title localized [] = Inl ValueError"
| "first_title localized (lang # langs) =
     and_then (py_get localized lang) (\<lambda>title.
       if truthy title then
         (case title of
            JStr s \<Rightarrow> Inr (py_join ''_'' (py_split (py_lower s)))
          | _ \<Rightarrow> Inl AttributeError)
       else first_title localized langs)"

definition languages :: "string list" where
  "languages = [''en'', ''de'', ''es'', ''fr'', ''pt'']"

definition canonical_ingredient_key :: "json \<Rightarrow> error + string" where
  "canonical_ingredient_key ingredient_details =
     and_then (py_get ingredient_details ''typ'') (\<lambda>typ.
       if truthy typ then
         py_str typ
       else
         and_then (py_get_default ingredient_details ''localizedTitle'' (JObj [])) (\<lambda>localized.
           first_title localized languages))"

section \<open>Dates\<close>

text \<open>
  A \<^verbatim>\<open>datetime.date\<close> is a year, a month and a day of the proleptic Gregorian
  calendar, the year between 1 and 9999. \<^verbatim>\<open>isoformat\<close> writes it as
  \<^verbatim>\<open>YYYY-MM-DD\<close>; \<^verbatim>\<open>fromisoformat\<close> reads that form back and raises
  \<^verbatim>\<open>ValueError\<close> (\<open>None\<close>) on anything else.
\<close>

record date =
  year :: nat
  month :: nat
  day :: nat

definition is_leap :: "nat \<Rightarrow> bool" where
  "is_leap y = (y mod 4 = 0 \<and> (y mod 100 \<noteq> 0 \<or> y mod 400 = 0))"

definition days_in_month :: "nat \<Rightarrow> nat \<Rightarrow> nat" where
  "days_in_month y m =
     (if m = 2 then (if is_leap y then 29 else 28)
      else if m = 4 \<or> m = 6 \<or> m = 9 \<or> m = 11 then 30 else 31)"

definition valid_date :: "date \<Rightarrow> bool" where
  "valid_date d = (1 \<le> year d \<and> year d \<le> 9999 \<and> 1 \<le> month d \<and> month d \<le> 12
     \<and> 1 \<le> day d \<and> day d \<le> days_in_month (year d) (month d))"

definition pad2 :: "nat \<Rightarrow> string" where
  "pad2 n = [digit (n div 10 mod 10), digit (n mod 10)]"

definition pad4 :: "nat \<Rightarrow> string" where
  "pad4 n = [digit (n div 1000 mod 10), digit (n div 100 mod 10),
             digit (n div 10 mod 10), digit (n mod 10)]"

definition isoformat :: "date \<Rightarrow> string" where
  "isoformat d = pad4 (year d) @ ''-'' @ pad2 (month d) @ ''-'' @ pad2 (day d)"

definition digit_val :: "char \<Rightarrow> nat option" where
  "digit_val c = (let n = (of_char c :: nat) in
     if 48 \<le> n \<and> n \<le> 57 then Some (n - 48) else None)"

fun number :: "char list \<Rightarrow> nat option" where
  "number [] = Some 0"
| "number (c # cs) = (case digit_val c of None \<Rightarrow> None
     | Some v \<Rightarrow> (case number cs of None \<Rightarrow> None
         | Some r \<Rightarrow> Some (v * 10 ^ length cs + r)))"

definition fromisoformat :: "string \<Rightarrow> date option" where
  "fromisoformat s =
     (if length s = 10 \<and> s ! 4 = CHR ''-'' \<and> s ! 7 = CHR ''-'' then
        (case (number (take 4 s), number (take 2 (drop 5 s)), number (drop 8 s)) of
           (Some y, Some m, Some d) \<Rightarrow>
             (let r = \<lparr>year = y, month = m, day = d\<rparr> in
              if valid_date r then Some r else None)
         | _ \<Rightarrow> None)
      else None)"

section \<open>SQL values\<close>

text \<open>
  The values a column holds. \<open>bind\<close> is the \<^verbatim>\<open>sqlite3\<close> module's adaptation of a
  Python statement parameter: \<^verbatim>\<open>None\<close>, integers (a \<^verbatim>\<open>bool\<close> is one) and
  strings are supported, an integer must fit 64 bits, a list or a dict cannot be
  bound. A column declared \<^verbatim>\<open>TEXT\<close> stores an integer as its decimal text.
\<close>

datatype sqlval = Null | Integer int | Text string

definition bind :: "json \<Rightarrow> error + sqlval" where
  "bind v = (case v of
     JNull \<Rightarrow> Inr Null
   | JBool b \<Rightarrow> Inr (Integer (if b then 1 else 0))
   | JNum n \<Rightarrow> (if - (2 ^ 63) \<le> n \<and> n < 2 ^ 63 then Inr (Integer n) else Inl OverflowError)
   | JStr s \<Rightarrow> Inr (Text s)
   | _ \<Rightarrow> Inl InterfaceError)"

fun bind_all :: "json list \<Rightarrow> error + sqlval list" where
  "bind_all [] = Inr []"
| "bind_all (v # vs) =
     and_then (bind v) (\<lambda>x. and_then (bind_all vs) (\<lambda>xs. Inr (x # xs)))"

definition text_affinity :: "sqlval \<Rightarrow> string option" where
  "text_affinity v = (case v of Null \<Rightarrow> None | Integer n \<Rightarrow> Some (dec n) | Text s \<Rightarrow> Some s)"

text \<open>
  The order of \<^verbatim>\<open>ORDER BY\<close> on a \<^verbatim>\<open>TEXT\<close> column: \<^verbatim>\<open>NULL\<close> first, then the
  texts, compared character by character, a proper prefix first.
\<close>

fun text_less :: "string \<Rightarrow> string \<Rightarrow> bool" where
  "text_less [] [] = False"
| "text_less [] (y # ys) = True"
| "text_less (x # xs) [] = False"
| "text_less (x # xs) (y # ys) =
     ((of_char x :: nat) < of_char y \<or> (x = y \<and> text_less xs ys))"

fun sql_less :: "string option \<Rightarrow> string option \<Rightarrow> bool" where
  "sql_less None None = False"
| "sql_less None (Some t) = True"
| "sql_less (Some s) None = False"
| "sql_less (Some s) (Some t) = text_less s t"

text \<open>
  Sorting for \<^verbatim>\<open>ORDER BY\<close>: \<open>precedes a b\<close> says that \<open>a\<close> may stand in front of \<open>b\<close>.
  Rows that the order does not separate keep the order of the table.
\<close>

fun insert_by :: "('a \<Rightarrow> 'a \<Rightarrow> bool) \<Rightarrow> 'a \<Rightarrow> 'a list \<Rightarrow> 'a list" where
  "insert_by precedes x [] = [x]"
| "insert_by precedes x (y # ys) =
     (if precedes x y then x # y # ys else y # insert_by precedes x ys)"

definition order_by :: "('a \<Rightarrow> 'a \<Rightarrow> bool) \<Rightarrow> 'a list \<Rightarrow> 'a list" where
  "order_by precedes xs = foldr (insert_by precedes) xs []"

section \<open>The database\<close>

text \<open>
  The three tables of \<^verbatim>\<open>_ensure_schema\<close>, each a list of rows in the order of
  insertion. A \<^verbatim>\<open>TEXT\<close> column holds a text or \<^verbatim>\<open>NULL\<close> (\<open>None\<close>). The
  columns \<^verbatim>\<open>recipes.date\<close>, \<^verbatim>\<open>ingredients.key\<close> and
  \<^verbatim>\<open>recipe_ingredients.ingredient_key\<close> are only ever given a Python string.
  \<^verbatim>\<open>raw_json\<close> holds \<^verbatim>\<open>json.dumps(recipe.data)\<close> and is only read through
  \<^verbatim>\<open>json.loads\<close>; both belong to Python's library and the model keeps the
  document itself in the column, which takes \<^verbatim>\<open>json.loads(json.dumps(d)) = d\<close> for
  the documents of type \<open>json\<close>.
\<close>

record recipe_row =
  r_id :: "string option"
  r_date :: string
  r_title_en :: "string option"
  r_title_de :: "string option"
  r_title_es :: "string option"
  r_title_fr :: "string option"
  r_title_pt :: "string option"
  r_raw_json :: json

record ingredient_row =
  i_key :: string
  i_typ :: "string option"
  i_category :: "string option"
  i_title_en :: "string option"
  i_title_de :: "string option"
  i_title_es :: "string option"
  i_title_fr :: "string option"
  i_title_pt :: "string option"
  i_number_title_en :: "string option"
  i_number_title_de :: "string option"
  i_number_title_es :: "string option"
  i_number_title_fr :: "string option"
  i_number_title_pt :: "string option"
  i_uncountable_title_en :: "string option"
  i_uncountable_title_de :: "string option"
  i_uncountable_title_es :: "string option"
  i_uncountable_title_fr :: "string option"
  i_uncountable_title_pt :: "string option"

record link_row =
  l_recipe_id :: string
  l_ingredient_key :: string
  l_quantity :: sqlval
  l_measure :: "string option"
  l_position :: nat

record tables =
  recipes :: "recipe_row list"
  ingredients :: "ingredient_row list"
  recipe_ingredients :: "link_row list"

definition empty_tables :: tables where
  "empty_tables = \<lparr>recipes = [], ingredients = [], recipe_ingredients = []\<rparr>"

subsection \<open>The statements\<close>

text \<open>
  \<^verbatim>\<open>INSERT INTO recipes ... ON CONFLICT(id) DO UPDATE SET ...\<close>: a row whose id
  is that of a stored row updates the columns the statement lists; any other row is
  appended. A \<^verbatim>\<open>NULL\<close> id conflicts with nothing.
\<close>

definition insert_recipe :: "recipe_row \<Rightarrow> tables \<Rightarrow> tables" where
  "insert_recipe new t =
     (if r_id new \<noteq> None \<and> r_id new \<in> set (map r_id (recipes t)) then
        t\<lparr>recipes := map (\<lambda>r. if r_id r = r_id new then
              r\<lparr>r_date := r_date new,
                r_title_en := r_title_en new,
                r_title_de := r_title_de new,
                r_title_es := r_title_es new,
                r_title_fr := r_title_fr new,
                r_title_pt := r_title_pt new,
                r_raw_json := r_raw_json new\<rparr>
              else r) (recipes t)\<rparr>
      else t\<lparr>recipes := recipes t @ [new]\<rparr>)"

text \<open>\<^verbatim>\<open>INSERT INTO ingredients ... ON CONFLICT(key) DO UPDATE SET ...\<close>\<close>

definition insert_ingredient :: "ingredient_row \<Rightarrow> tables \<Rightarrow> tables" where
  "insert_ingredient new t =
     (if i_key new \<in> set (map i_key (ingredients t)) then
        t\<lparr>ingredients := map (\<lambda>r. if i_key r = i_key new then
              r\<lparr>i_typ := i_typ new,
                i_category := i_category new,
                i_title_en := i_title_en new,
                i_title_de := i_title_de new,
                i_title_es := i_title_es new,
                i_title_fr := i_title_fr new,
                i_title_pt := i_title_pt new,
                i_number_title_en := i_number_title_en new,
                i_number_title_de := i_number_title_de new,
                i_number_title_es := i_number_title_es new,
                i_number_title_fr := i_number_title_fr new,
                i_number_title_pt := i_number_title_pt new,
                i_uncountable_title_en := i_uncountable_title_en new,
                i_uncountable_title_de := i_uncountable_title_de new,
                i_uncountable_title_es := i_uncountable_title_es new,
                i_uncountable_title_fr := i_uncountable_title_fr new,
                i_uncountable_title_pt := i_uncountable_title_pt new\<rparr>
              else r) (ingredients t)\<rparr>
      else t\<lparr>ingredients := ingredients t @ [new]\<rparr>)"

text \<open>
  \<^verbatim>\<open>INSERT INTO recipe_ingredients ... ON CONFLICT(recipe_id, position) DO UPDATE
  SET ...\<close>. \<^verbatim>\<open>recipe_id\<close> is \<^verbatim>\<open>NOT NULL\<close>, and with
  \<^verbatim>\<open>PRAGMA foreign_keys = ON\<close> the recipe and the ingredient must be stored.
\<close>

definition insert_link ::
  "string option \<Rightarrow> string \<Rightarrow> sqlval \<Rightarrow> string option \<Rightarrow> nat \<Rightarrow> tables \<Rightarrow> error + tables" where
  "insert_link recipe_id ingredient_key quantity unit position t =
     (case recipe_id of
        None \<Rightarrow> Inl IntegrityError
      | Some rid \<Rightarrow>
          if Some rid \<notin> set (map r_id (recipes t))
             \<or> ingredient_key \<notin> set (map i_key (ingredients t))
          then Inl IntegrityError
          else if (rid, position) \<in> set (map (\<lambda>l. (l_recipe_id l, l_position l))
                                              (recipe_ingredients t)) then
            Inr (t\<lparr>recipe_ingredients := map (\<lambda>l.
                  if l_recipe_id l = rid \<and> l_position l = position then
                    l\<lparr>l_ingredient_key := ingredient_key,
                      l_quantity := quantity,
                      l_measure := unit\<rparr>
                  else l) (recipe_ingredients t)\<rparr>)
          else
            Inr (t\<lparr>recipe_ingredients := recipe_ingredients t @
                  [\<lparr>l_recipe_id = rid, l_ingredient_key = ingredient_key,
                    l_quantity = quantity, l_measure = unit,
                    l_position = position\<rparr>]\<rparr>))"

text \<open>\<^verbatim>\<open>DELETE FROM recipe_ingredients WHERE recipe_id = ?\<close>: \<^verbatim>\<open>NULL\<close> equals nothing.\<close>

definition delete_links :: "string option \<Rightarrow> tables \<Rightarrow> tables" where
  "delete_links recipe_id t =
     t\<lparr>recipe_ingredients :=
         filter (\<lambda>l. Some (l_recipe_id l) \<noteq> recipe_id) (recipe_ingredients t)\<rparr>"

section \<open>The repository\<close>

record RecipeInDb =
  date :: date
  data :: json

text \<open>The property \<^verbatim>\<open>RecipeInDb.id\<close>: \<^verbatim>\<open>self.data["_id"]["$oid"]\<close>.\<close>

definition recipe_id_of :: "json \<Rightarrow> error + json" where
  "recipe_id_of d = and_then (py_getitem d ''_id'') (\<lambda>i. py_getitem i ''$oid'')"

text \<open>\<^verbatim>\<open>_localized_values\<close>: the five languages of \<^verbatim>\<open>values or {}\<close>.\<close>

definition localized_values :: "json \<Rightarrow> error + json list" where
  "localized_values values =
     (let vs = (if truthy values then values else JObj []) in
      and_then (py_get vs ''en'') (\<lambda>en.
      and_then (py_get vs ''de'') (\<lambda>de.
      and_then (py_get vs ''es'') (\<lambda>es.
      and_then (py_get vs ''fr'') (\<lambda>fr.
      and_then (py_get vs ''pt'') (\<lambda>pt.
        Inr [en, de, es, fr, pt]))))))"

text \<open>
  \<^verbatim>\<open>_upsert_ingredient\<close>. The parameters are bound in the order of the
  statement: key, typ, category and the three groups of five titles.
\<close>

definition ingredient_row_of :: "string \<Rightarrow> sqlval list \<Rightarrow> ingredient_row" where
  "ingredient_row_of k ps =
     \<lparr>i_key = k,
      i_typ = text_affinity (ps ! 1),
      i_category = text_affinity (ps ! 2),
      i_title_en = text_affinity (ps ! 3),
      i_title_de = text_affinity (ps ! 4),
      i_title_es = text_affinity (ps ! 5),
      i_title_fr = text_affinity (ps ! 6),
      i_title_pt = text_affinity (ps ! 7),
      i_number_title_en = text_affinity (ps ! 8),
      i_number_title_de = text_affinity (ps ! 9),
      i_number_title_es = text_affinity (ps ! 10),
      i_number_title_fr = text_affinity (ps ! 11),
      i_number_title_pt = text_affinity (ps ! 12),
      i_uncountable_title_en = text_affinity (ps ! 13),
      i_uncountable_title_de = text_affinity (ps ! 14),
      i_uncountable_title_es = text_affinity (ps ! 15),
      i_uncountable_title_fr = text_affinity (ps ! 16),
      i_uncountable_title_pt = text_affinity (ps ! 17)\<rparr>"

definition ingredient_params :: "json \<Rightarrow> error + string \<times> sqlval list" where
  "ingredient_params ingredient_details =
     and_then (canonical_ingredient_key ingredient_details) (\<lambda>key.
     and_then (py_get ingredient_details ''localizedTitle'') (\<lambda>lt.
     and_then (localized_values lt) (\<lambda>localized_title.
     and_then (py_get ingredient_details ''numberTitle'') (\<lambda>nt.
     and_then (localized_values nt) (\<lambda>number_title.
     and_then (py_get ingredient_details ''uncountableTitle'') (\<lambda>ut.
     and_then (localized_values ut) (\<lambda>uncountable_title.
     and_then (py_get ingredient_details ''typ'') (\<lambda>typ.
     and_then (py_get ingredient_details ''category'') (\<lambda>category.
     and_then (bind_all ([JStr key, typ, category]
                 @ localized_title @ number_title @ uncountable_title)) (\<lambda>ps.
       Inr (key, ps)))))))))))"

definition upsert_ingredient :: "json \<Rightarrow> tables \<Rightarrow> error + string \<times> tables" where
  "upsert_ingredient ingredient_details conn =
     and_then (ingredient_params ingredient_details) (\<lambda>(key, ps).
       Inr (key, insert_ingredient (ingredient_row_of key ps) conn))"

text \<open>
  The loop of \<^verbatim>\<open>_upsert_recipe\<close> over \<^verbatim>\<open>enumerate(ingredients)\<close>, from the
  position \<open>position\<close> on. \<open>rid\<close> is the bound recipe id. The column
  \<^verbatim>\<open>quantity\<close> keeps the bound value (its conversion to a floating point number is
  not modelled).
\<close>

fun upsert_links :: "sqlval \<Rightarrow> nat \<Rightarrow> json list \<Rightarrow> tables \<Rightarrow> error + tables" where
  "upsert_links rid position [] conn = Inr conn"
| "upsert_links rid position (ingredient # rest) conn =
     and_then (py_get_default ingredient ''ingredient'' (JObj [])) (\<lambda>ingredient_details.
     and_then (upsert_ingredient ingredient_details conn) (\<lambda>(ingredient_key, conn1).
     and_then (py_get ingredient ''quantity'') (\<lambda>quantity.
     and_then (py_get ingredient ''measure'') (\<lambda>unit.
     and_then (bind_all [quantity, unit]) (\<lambda>ps.
     and_then (insert_link (text_affinity rid) ingredient_key (ps ! 0)
                 (text_affinity (ps ! 1)) position conn1) (\<lambda>conn2.
       upsert_links rid (Suc position) rest conn2))))))"

definition recipe_row_of :: "sqlval \<Rightarrow> string \<Rightarrow> sqlval list \<Rightarrow> json \<Rightarrow> recipe_row" where
  "recipe_row_of rid d ts raw =
     \<lparr>r_id = text_affinity rid,
      r_date = d,
      r_title_en = text_affinity (ts ! 0),
      r_title_de = text_affinity (ts ! 1),
      r_title_es = text_affinity (ts ! 2),
      r_title_fr = text_affinity (ts ! 3),
      r_title_pt = text_affinity (ts ! 4),
      r_raw_json = raw\<rparr>"

text \<open>
  \<^verbatim>\<open>_upsert_recipe\<close>. \<open>recipe_prelude\<close> is what it computes before its first
  statement: the id, the text of the payload and the localized title.
\<close>

definition recipe_prelude :: "RecipeInDb \<Rightarrow> error + json \<times> json \<times> json list" where
  "recipe_prelude recipe =
     and_then (recipe_id_of (data recipe)) (\<lambda>recipe_id.
     and_then (json_dumps (data recipe)) (\<lambda>raw_json.
     and_then (py_get (data recipe) ''localizedTitle'') (\<lambda>lt.
     and_then (localized_values lt) (\<lambda>localized_title.
       Inr (recipe_id, raw_json, localized_title)))))"

definition upsert_recipe :: "RecipeInDb \<Rightarrow> tables \<Rightarrow> error + tables" where
  "upsert_recipe recipe conn =
     and_then (recipe_prelude recipe) (\<lambda>(recipe_id, raw_json, localized_title).
     and_then (bind recipe_id) (\<lambda>rid.
     and_then (bind_all localized_title) (\<lambda>ts.
       let conn1 = insert_recipe
             (recipe_row_of rid (isoformat (date recipe)) ts raw_json) conn;
           conn2 = delete_links (text_affinity rid) conn1
       in
       and_then (py_get_default (data recipe) ''ingredients'' (JArr [])) (\<lambda>ings.
       and_then (py_iter ings) (\<lambda>items.
         upsert_links rid 0 items conn2)))))"

subsection \<open>Files, connections and the writing methods\<close>

text \<open>
  The repository owns two files, the database and its backup; a file is absent
  (\<open>None\<close>), a database without the tables, or the three tables.
  \<^verbatim>\<open>with self._connect() as conn\<close> opens the database (creating an empty one where
  there is no file), runs the body in one transaction, and commits it when the body
  returns or rolls it back when the body raises. No statement of the bodies below
  commits on its own. On a database without the tables the first statement of a
  body raises \<^verbatim>\<open>OperationalError\<close>: \<open>without_tables\<close> is what the body does up to
  there.
\<close>

datatype dbfile = NoTables | Tables tables

record store =
  db_file :: "dbfile option"
  backup_file :: "dbfile option"

definition create_backup :: "store \<Rightarrow> store" where
  "create_backup s = (case db_file s of None \<Rightarrow> s | Some f \<Rightarrow> s\<lparr>backup_file := Some f\<rparr>)"

definition connect ::
  "(error + 'a) \<Rightarrow> (tables \<Rightarrow> error + tables \<times> 'a) \<Rightarrow> store \<Rightarrow> (error + 'a) \<times> store" where
  "connect without_tables body s = (case db_file s of
     Some (Tables t) \<Rightarrow>
       (case body t of
          Inl e \<Rightarrow> (Inl e, s)
        | Inr (t', x) \<Rightarrow> (Inr x, s\<lparr>db_file := Some (Tables t')\<rparr>))
   | _ \<Rightarrow> (without_tables, s\<lparr>db_file := Some NoTables\<rparr>))"

definition first_statement_fails :: "RecipeInDb \<Rightarrow> error + unit" where
  "first_statement_fails recipe =
     and_then (recipe_prelude recipe) (\<lambda>p. Inl OperationalError)"

text \<open>\<^verbatim>\<open>_ensure_schema\<close>, which \<^verbatim>\<open>__init__\<close> runs: \<^verbatim>\<open>CREATE TABLE IF NOT EXISTS\<close>.\<close>

definition ensure_schema :: "store \<Rightarrow> store" where
  "ensure_schema s = (case db_file s of
     Some (Tables t) \<Rightarrow> s
   | _ \<Rightarrow> s\<lparr>db_file := Some (Tables empty_tables)\<rparr>)"

definition add :: "RecipeInDb \<Rightarrow> store \<Rightarrow> (error + unit) \<times> store" where
  "add recipe s =
     connect (first_statement_fails recipe) (\<lambda>conn. and_then (upsert_recipe recipe conn) (\<lambda>conn'. Inr (conn', ())))
       (create_backup s)"

fun upsert_recipes :: "RecipeInDb list \<Rightarrow> tables \<Rightarrow> error + tables" where
  "upsert_recipes [] conn = Inr conn"
| "upsert_recipes (recipe # rest) conn =
     and_then (upsert_recipe recipe conn) (\<lambda>conn'. upsert_recipes rest conn')"

definition add_list :: "RecipeInDb list \<Rightarrow> store \<Rightarrow> (error + unit) \<times> store" where
  "add_list rs s =
     connect (case rs of [] \<Rightarrow> Inr () | recipe # rest \<Rightarrow> first_statement_fails recipe)
       (\<lambda>conn. and_then (upsert_recipes rs conn) (\<lambda>conn'. Inr (conn', ())))
       (create_backup s)"

subsection \<open>The reading methods\<close>

text \<open>
  \<^verbatim>\<open>_rows_to_recipes\<close>: \<^verbatim>\<open>date.fromisoformat\<close> raises \<^verbatim>\<open>ValueError\<close> on a
  text that is no date, and \<^verbatim>\<open>RecipeInDb\<close> accepts only a dict as its data (its
  validation error is a \<^verbatim>\<open>ValueError\<close>).
\<close>

fun rows_to_recipes :: "recipe_row list \<Rightarrow> error + RecipeInDb list" where
  "rows_to_recipes [] = Inr []"
| "rows_to_recipes (row # rows) =
     (case fromisoformat (r_date row) of
        None \<Rightarrow> Inl ValueError
      | Some d \<Rightarrow>
          (case r_raw_json row of
             JObj kvs \<Rightarrow>
               and_then (rows_to_recipes rows) (\<lambda>rs.
                 Inr (\<lparr>date = d, data = JObj kvs\<rparr> # rs))
           | _ \<Rightarrow> Inl ValueError))"

text \<open>\<^verbatim>\<open>ORDER BY date DESC, id ASC\<close>\<close>

definition recipe_before :: "recipe_row \<Rightarrow> recipe_row \<Rightarrow> bool" where
  "recipe_before a b =
     (text_less (r_date b) (r_date a)
      \<or> (r_date a = r_date b \<and> \<not> sql_less (r_id b) (r_id a)))"

definition list_recipes :: "store \<Rightarrow> (error + RecipeInDb list) \<times> store" where
  "list_recipes s =
     (case connect (Inl OperationalError)
             (\<lambda>conn. Inr (conn, order_by recipe_before (recipes conn))) s of
        (Inl e, s') \<Rightarrow> (Inl e, s')
      | (Inr rows, s') \<Rightarrow> (rows_to_recipes rows, s'))"


definition needs_to_be_synced :: "date \<Rightarrow> store \<Rightarrow> (error + bool) \<times> store" where
  "needs_to_be_synced d s =
     connect (Inl OperationalError) (\<lambda>conn.
       Inr (conn, find (\<lambda>r. r_date r = isoformat d) (recipes conn) = None)) s"

text \<open>
  Modelled from the spec: \<^verbatim>\<open>LocalizedString\<close> of the module \<^verbatim>\<open>models\<close>, which is
  not among the sources: a text per language for the five languages, each
  independently optional.
\<close>

record LocalizedString =
  en :: "string option"
  de :: "string option"
  es :: "string option"
  fr :: "string option"
  pt :: "string option"

text \<open>\<^verbatim>\<open>IngredientRecord\<close>; its field \<^verbatim>\<open>typ\<close> is \<open>typ'\<close> here.\<close>

record IngredientRecord =
  key :: string
  typ' :: "string option"
  category :: "string option"
  localized_title :: LocalizedString
  number_title :: "LocalizedString option"
  uncountable_title :: "LocalizedString option"

text \<open>\<^verbatim>\<open>any(x.model_dump().values())\<close>: some field is a non-empty text.\<close>

definition any_values :: "LocalizedString \<Rightarrow> bool" where
  "any_values x =
     list_ex (\<lambda>v. case v of None \<Rightarrow> False | Some t \<Rightarrow> t \<noteq> [])
       [en x, de x, es x, fr x, pt x]"

definition ingredient_record :: "ingredient_row \<Rightarrow> IngredientRecord" where
  "ingredient_record row =
     (let title = \<lparr>en = i_title_en row, de = i_title_de row, es = i_title_es row,
                   fr = i_title_fr row, pt = i_title_pt row\<rparr>;
          number = \<lparr>en = i_number_title_en row, de = i_number_title_de row,
                    es = i_number_title_es row, fr = i_number_title_fr row,
                    pt = i_number_title_pt row\<rparr>;
          uncountable = \<lparr>en = i_uncountable_title_en row, de = i_uncountable_title_de row,
                         es = i_uncountable_title_es row, fr = i_uncountable_title_fr row,
                         pt = i_uncountable_title_pt row\<rparr>
      in \<lparr>key = i_key row, typ' = i_typ row, category = i_category row,
          localized_title = title,
          number_title = (if any_values number then Some number else None),
          uncountable_title = (if any_values uncountable then Some uncountable else None)\<rparr>)"

text \<open>\<^verbatim>\<open>ORDER BY COALESCE(title_de, title_en, typ)\<close>\<close>

definition coalesce :: "string option list \<Rightarrow> string option" where
  "coalesce vs = (case filter (\<lambda>v. v \<noteq> None) vs of [] \<Rightarrow> None | v # _ \<Rightarrow> v)"

definition ingredient_before :: "ingredient_row \<Rightarrow> ingredient_row \<Rightarrow> bool" where
  "ingredient_before a b =
     (\<not> sql_less (coalesce [i_title_de b, i_title_en b, i_typ b])
                 (coalesce [i_title_de a, i_title_en a, i_typ a]))"

definition list_ingredients :: "store \<Rightarrow> (error + IngredientRecord list) \<times> store" where
  "list_ingredients s =
     (case connect (Inl OperationalError)
             (\<lambda>conn. Inr (conn, order_by ingredient_before (ingredients conn))) s of
        (Inl e, s') \<Rightarrow> (Inl e, s')
      | (Inr rows, s') \<Rightarrow> (Inr (map ingredient_record rows), s'))"

section \<open>Well-typed payloads\<close>

text \<open>
  The payloads the upstream client supplies: a dict with a string at \<^verbatim>\<open>_id.$oid\<close>,
  an optional localized title, and optionally \<^verbatim>\<open>ingredients\<close>, a list of dicts
  with an optional numeric \<^verbatim>\<open>quantity\<close>, an optional text \<^verbatim>\<open>measure\<close> and an
  optional dict \<^verbatim>\<open>ingredient\<close>, whose \<^verbatim>\<open>typ\<close> and \<^verbatim>\<open>category\<close> are optional
  texts and whose three titles are optional dicts of optional texts. Optional means
  absent or \<^verbatim>\<open>None\<close>, except for \<^verbatim>\<open>ingredient\<close> and its \<^verbatim>\<open>localizedTitle\<close>,
  which are absent or a dict here: on an explicit \<^verbatim>\<open>None\<close> for one of the two the
  code raises \<^verbatim>\<open>AttributeError\<close> (Claim C2). No integer of the payload has more
  than 4300 digits.
\<close>

definition lookup :: "(string \<times> json) list \<Rightarrow> string \<Rightarrow> json" where
  "lookup kvs k = (case map_of kvs k of None \<Rightarrow> JNull | Some v \<Rightarrow> v)"

definition opt_text :: "json \<Rightarrow> bool" where
  "opt_text v = (case v of JNull \<Rightarrow> True | JStr s \<Rightarrow> True | _ \<Rightarrow> False)"

definition opt_number :: "json \<Rightarrow> bool" where
  "opt_number v = (case v of JNull \<Rightarrow> True
     | JNum n \<Rightarrow> - (2 ^ 63) \<le> n \<and> n < 2 ^ 63 | _ \<Rightarrow> False)"

definition wf_localized :: "json \<Rightarrow> bool" where
  "wf_localized v = (case v of
     JNull \<Rightarrow> True
   | JObj kvs \<Rightarrow> list_all (\<lambda>l. opt_text (lookup kvs l)) languages
   | _ \<Rightarrow> False)"

definition wf_details :: "json \<Rightarrow> bool" where
  "wf_details d = (case d of
     JObj kvs \<Rightarrow>
       opt_text (lookup kvs ''typ'') \<and> opt_text (lookup kvs ''category'')
       \<and> (case map_of kvs ''localizedTitle'' of
            None \<Rightarrow> True
          | Some v \<Rightarrow> v \<noteq> JNull \<and> wf_localized v)
       \<and> wf_localized (lookup kvs ''numberTitle'')
       \<and> wf_localized (lookup kvs ''uncountableTitle'')
   | _ \<Rightarrow> False)"

definition wf_ingredient :: "json \<Rightarrow> bool" where
  "wf_ingredient x = (case x of
     JObj kvs \<Rightarrow>
       (case map_of kvs ''ingredient'' of None \<Rightarrow> True | Some d \<Rightarrow> wf_details d)
       \<and> opt_number (lookup kvs ''quantity'') \<and> opt_text (lookup kvs ''measure'')
   | _ \<Rightarrow> False)"

text \<open>The ingredient list of a payload and the ingredient object of one of its entries.\<close>

definition ingredient_list :: "json \<Rightarrow> json list" where
  "ingredient_list d = (case d of
     JObj kvs \<Rightarrow> (case map_of kvs ''ingredients'' of Some (JArr xs) \<Rightarrow> xs | _ \<Rightarrow> [])
   | _ \<Rightarrow> [])"

definition details_of :: "json \<Rightarrow> json" where
  "details_of x = (case x of
     JObj kvs \<Rightarrow> (case map_of kvs ''ingredient'' of None \<Rightarrow> JObj [] | Some d \<Rightarrow> d)
   | _ \<Rightarrow> JNull)"

definition wf_recipe :: "RecipeInDb \<Rightarrow> bool" where
  "wf_recipe r = (case data r of
     JObj kvs \<Rightarrow>
       (case recipe_id_of (data r) of Inr (JStr i) \<Rightarrow> True | _ \<Rightarrow> False)
       \<and> ints_ok (data r)
       \<and> wf_localized (lookup kvs ''localizedTitle'')
       \<and> (case map_of kvs ''ingredients'' of
            None \<Rightarrow> True
          | Some v \<Rightarrow> (case v of JArr xs \<Rightarrow> list_all wf_ingredient xs | _ \<Rightarrow> False))
   | _ \<Rightarrow> False)"

text \<open>
  An ingredient has a \<^verbatim>\<open>typ\<close> when its \<^verbatim>\<open>typ\<close> is a non-empty text, and a title
  when one of the five languages of its \<^verbatim>\<open>localizedTitle\<close> is a non-empty text.
\<close>

definition nonempty_text :: "json \<Rightarrow> bool" where
  "nonempty_text v = (case v of JStr s \<Rightarrow> s \<noteq> [] | _ \<Rightarrow> False)"

definition has_typ :: "json \<Rightarrow> bool" where
  "has_typ d = (case d of JObj kvs \<Rightarrow> nonempty_text (lookup kvs ''typ'') | _ \<Rightarrow> False)"

definition titles :: "json \<Rightarrow> json list" where
  "titles d = (case d of
     JObj kvs \<Rightarrow> (case lookup kvs ''localizedTitle'' of
                    JObj ts \<Rightarrow> map (lookup ts) languages | _ \<Rightarrow> [])
   | _ \<Rightarrow> [])"

definition has_title :: "json \<Rightarrow> bool" where
  "has_title d = list_ex nonempty_text (titles d)"

text \<open>An entry of the ingredient list whose ingredient has neither.\<close>

definition malformed :: "json \<Rightarrow> bool" where
  "malformed x = (\<not> has_typ (details_of x) \<and> \<not> has_title (details_of x))"

section \<open>The rows of a recipe\<close>

text \<open>
  What \<^verbatim>\<open>_upsert_recipe\<close> hands to its statements for a recipe with the id \<open>i\<close>: the
  row of the recipe, and the link row of the entry \<open>x\<close> at the position \<open>position\<close> of
  its ingredient list. Both are built from the recipe alone.
\<close>

definition stored_row :: "string \<Rightarrow> RecipeInDb \<Rightarrow> recipe_row" where
  "stored_row i recipe =
     recipe_row_of (Text i) (isoformat (date recipe))
       (projr (and_then (and_then (py_get (data recipe) ''localizedTitle'') localized_values)
                 bind_all))
       (data recipe)"

definition new_link :: "string \<Rightarrow> nat \<Rightarrow> json \<Rightarrow> link_row" where
  "new_link i position x =
     \<lparr>l_recipe_id = i,
      l_ingredient_key = projr (canonical_ingredient_key (details_of x)),
      l_quantity = projr (and_then (py_get x ''quantity'') bind),
      l_measure = text_affinity (projr (and_then (py_get x ''measure'') bind)),
      l_position = position\<rparr>"

definition new_links :: "string \<Rightarrow> nat \<Rightarrow> json list \<Rightarrow> link_row list" where
  "new_links i start xs = map (\<lambda>(position, x). new_link i position x) (enumerate start xs)"




definition stored_ingredients :: "store \<Rightarrow> ingredient_row list" where
  "stored_ingredients s = (case db_file s of Some (Tables t) \<Rightarrow> ingredients t | _ \<Rightarrow> [])"

text \<open>A column that is \<^verbatim>\<open>NULL\<close> or the empty text.\<close>

definition blank :: "string option \<Rightarrow> bool" where
  "blank v = (case v of None \<Rightarrow> True | Some t \<Rightarrow> t = [])"

section \<open>The key in words\<close>

text \<open>
  \<open>collapse\<close> replaces every run of whitespace by one underscore; \<open>strip\<close> removes
  the whitespace at both ends.
\<close>

function collapse :: "string \<Rightarrow> string" where
  "collapse [] = []"
| "collapse (c # cs) =
     (if is_space c then CHR ''_'' # collapse (dropWhile is_space cs) else c # collapse cs)"
  by pat_completeness auto
termination
  by (relation "measure length") (auto simp: length_dropWhile_le le_imp_less_Suc)

definition rstrip :: "string \<Rightarrow> string" where
  "rstrip s = rev (dropWhile is_space (rev s))"

definition strip :: "string \<Rightarrow> string" where
  "strip s = dropWhile is_space (rstrip s)"

text \<open>
  The key as the specification words it: the \<^verbatim>\<open>typ\<close> if the ingredient has one;
  otherwise the first non-empty title in the order of the languages, lower-cased,
  its whitespace collapsed to single underscores; otherwise the malformed-ingredient
  error.
\<close>

definition claimed_key :: "json \<Rightarrow> error + string" where
  "claimed_key d = (case d of
     JObj kvs \<Rightarrow>
       (case lookup kvs ''typ'' of
          JStr t \<Rightarrow> Inr t
        | _ \<Rightarrow> (case find nonempty_text (titles d) of
                  Some (JStr s) \<Rightarrow> Inr (collapse (py_lower s))
                | _ \<Rightarrow> Inl ValueError))
   | _ \<Rightarrow> Inl ValueError)"

text \<open>
  The key as amended: the \<^verbatim>\<open>typ\<close> counts when it is not empty, and the whitespace
  at both ends of the title is dropped.
\<close>

definition amended_key :: "json \<Rightarrow> error + string" where
  "amended_key d = (case d of
     JObj kvs \<Rightarrow>
       (case lookup kvs ''typ'' of
          JStr t \<Rightarrow> if t \<noteq> [] then Inr t
                    else (case find nonempty_text (titles d) of
                            Some (JStr s) \<Rightarrow> Inr (collapse (strip (py_lower s)))
                          | _ \<Rightarrow> Inl ValueError)
        | _ \<Rightarrow> (case find nonempty_text (titles d) of
                  Some (JStr s) \<Rightarrow> Inr (collapse (strip (py_lower s)))
                | _ \<Rightarrow> Inl ValueError))
   | _ \<Rightarrow> Inl ValueError)"

text \<open>
  An ingredient whose \<^verbatim>\<open>typ\<close> is absent, \<^verbatim>\<open>None\<close> or a text and whose
  \<^verbatim>\<open>localizedTitle\<close> is absent or a dict that gives each language nothing,
  \<^verbatim>\<open>None\<close> or a text.
\<close>

definition key_typed :: "json \<Rightarrow> bool" where
  "key_typed d = (case d of
     JObj kvs \<Rightarrow>
       opt_text (lookup kvs ''typ'')
       \<and> (case map_of kvs ''localizedTitle'' of
            None \<Rightarrow> True
          | Some v \<Rightarrow> (case v of
                        JObj ts \<Rightarrow> list_all (\<lambda>l. opt_text (lookup ts l)) languages
                      | _ \<Rightarrow> False))
   | _ \<Rightarrow> False)"

section \<open>Example data\<close>

text \<open>
  A repository on an empty directory, the ingredient and the recipes of the test
  \<^verbatim>\<open>test_ingredients_are_reused\<close>, and a recipe whose only ingredient has neither a
  \<^verbatim>\<open>typ\<close> nor a title.
\<close>

definition fresh_store :: store where
  "fresh_store = ensure_schema \<lparr>db_file = None, backup_file = None\<rparr>"

definition tomato :: json where
  "tomato = JObj [(''typ'', JStr ''tomato''),
     (''localizedTitle'', JObj [(''de'', JStr ''Tomate''), (''en'', JStr ''Tomato'')]),
     (''numberTitle'', JObj [(''de'', JStr ''Tomaten'')]),
     (''category'', JStr ''vegetable'')]"

definition example_recipe :: "string \<Rightarrow> int \<Rightarrow> json \<Rightarrow> RecipeInDb" where
  "example_recipe i q details =
     \<lparr>date = \<lparr>year = 2024, month = 5, day = 17\<rparr>,
      data = JObj [(''_id'', JObj [(''$oid'', JStr i)]),
        (''ingredients'', JArr [JObj [(''quantity'', JNum q), (''measure'', JStr ''piece''),
            (''ingredient'', details)]])]\<rparr>"

text \<open>A recipe with the id 1, a title and two ingredients.\<close>

definition salad :: RecipeInDb where
  "salad =
     \<lparr>date = \<lparr>year = 2024, month = 5, day = 16\<rparr>,
      data = JObj [(''_id'', JObj [(''$oid'', JStr ''1'')]),
        (''localizedTitle'', JObj [(''en'', JStr ''Salad''), (''de'', JStr ''Salat'')]),
        (''ingredients'', JArr [
           JObj [(''quantity'', JNum 3), (''measure'', JStr ''piece''), (''ingredient'', tomato)],
           JObj [(''measure'', JStr ''pinch''),
                 (''ingredient'', JObj [(''localizedTitle'', JObj [(''en'', JStr ''Sea  Salt '')])])]])]\<rparr>"

text \<open>A recipe whose ingredient has the plural form \<open>plural\<close>.\<close>

definition salt_recipe :: "json \<Rightarrow> RecipeInDb" where
  "salt_recipe plural = example_recipe ''1'' 1
     (JObj [(''typ'', JStr ''salt''), (''localizedTitle'', JObj [(''en'', JStr ''Salt'')]),
            (''numberTitle'', plural)])"

section \<open>Basic facts\<close>

lemma and_then_Inl [simp]: "and_then (Inl e) f = Inl e"
  by (simp add: and_then_def)

lemma and_then_Inr [simp]: "and_then (Inr x) f = f x"
  by (simp add: and_then_def)

lemma and_then_eq_Inr: "and_then m f = Inr y \<longleftrightarrow> (\<exists>x. m = Inr x \<and> f x = Inr y)"
  by (cases m) simp_all

lemma and_then_eq_Inl:
  "and_then m f = Inl e \<longleftrightarrow> m = Inl e \<or> (\<exists>x. m = Inr x \<and> f x = Inl e)"
  by (cases m) auto

lemma db_file_ensure_schema: "\<exists>t. db_file (ensure_schema s) = Some (Tables t)"
  by (auto simp: ensure_schema_def split: option.splits dbfile.splits)

lemma connect_backup_file: "backup_file (snd (connect w body s)) = backup_file s"
  by (auto simp: connect_def split: option.splits dbfile.splits sum.splits prod.splits)

lemma connect_db_file_exists: "db_file (snd (connect w body s)) \<noteq> None"
  by (auto simp: connect_def split: option.splits dbfile.splits sum.splits prod.splits)

lemma upsert_recipes_append:
  "upsert_recipes (xs @ ys) t = and_then (upsert_recipes xs t) (upsert_recipes ys)"
  by (induction xs arbitrary: t) (auto simp: and_then_def split: sum.splits)

section \<open>The backup\<close>

text \<open>
  \<^verbatim>\<open>__init__\<close> runs \<^verbatim>\<open>_ensure_schema\<close>, after which the database file exists
  (\<open>db_file_ensure_schema\<close>), and every method leaves it in existence
  (\<open>connect_db_file_exists\<close>); so the test \<^verbatim>\<open>self.path.exists()\<close> of
  \<^verbatim>\<open>create_backup\<close> holds at every call on a repository.

  Claim C9. Every call of \<^verbatim>\<open>add\<close> or \<^verbatim>\<open>add_list\<close> copies the database file to the
  backup path before it changes anything: whatever the call does afterwards, and
  whether it succeeds or raises, the backup then holds the database as it was before
  the call, in place of the backup that was there.
\<close>

theorem backup_before_mutation:
  "db_file s \<noteq> None \<Longrightarrow>
     backup_file (snd (add recipe s)) = db_file s
   \<and> backup_file (snd (add_list rs s)) = db_file s"
  by (auto simp: add_def add_list_def connect_backup_file create_backup_def)

theorem backup_before_mutation_witness:
  "db_file (snd (add (example_recipe ''1'' 1 tomato) fresh_store)) \<noteq> None
   \<and> db_file (snd (add (example_recipe ''1'' 1 tomato) fresh_store)) \<noteq> db_file fresh_store
   \<and> backup_file (snd (add (example_recipe ''2'' 2 tomato)
        (snd (add (example_recipe ''1'' 1 tomato) fresh_store))))
      = db_file (snd (add (example_recipe ''1'' 1 tomato) fresh_store))
   \<and> backup_file (snd (add_list [example_recipe ''2'' 2 tomato]
        (snd (add (example_recipe ''1'' 1 tomato) fresh_store))))
      = db_file (snd (add (example_recipe ''1'' 1 tomato) fresh_store))"
proof -
  have h: "db_file (snd (add (example_recipe ''1'' 1 tomato) fresh_store)) \<noteq> None"
    by (simp add: add_def connect_db_file_exists)
  have d: "db_file (snd (add (example_recipe ''1'' 1 tomato) fresh_store)) \<noteq> db_file fresh_store"
    by code_simp
  show ?thesis
    using h d
      backup_before_mutation [OF h, of "example_recipe ''2'' 2 tomato"
        "[example_recipe ''2'' 2 tomato]"]
    by simp
qed

section \<open>Atomic writes\<close>

text \<open>
  Claim C10. \<^verbatim>\<open>add_list\<close> is all or nothing: when the recipes \<open>earlier\<close> of a batch
  have been processed and the next one raises, the call raises that error and the
  tables of the database are what they were before the call; nothing of the recipes
  \<open>earlier\<close> is stored. (Only the backup file has changed.)
\<close>

theorem add_list_all_or_nothing:
  "db_file s = Some (Tables t) \<Longrightarrow>
   upsert_recipes earlier t = Inr t1 \<Longrightarrow>
   upsert_recipe recipe t1 = Inl e \<Longrightarrow>
   add_list (earlier @ recipe # later) s = (Inl e, s\<lparr>backup_file := Some (Tables t)\<rparr>)"
  by (simp add: add_list_def connect_def create_backup_def upsert_recipes_append)

theorem add_list_all_or_nothing_witness:
  "add_list [example_recipe ''1'' 1 tomato, example_recipe ''2'' 2 (JObj []),
             example_recipe ''3'' 3 tomato] fresh_store
   = (Inl ValueError, fresh_store\<lparr>backup_file := Some (Tables empty_tables)\<rparr>)
   \<and> projr (upsert_recipes [example_recipe ''1'' 1 tomato] empty_tables) \<noteq> empty_tables"
proof -
  have h1: "db_file fresh_store = Some (Tables empty_tables)"
    by code_simp
  have h2: "upsert_recipes [example_recipe ''1'' 1 tomato] empty_tables
      = Inr (projr (upsert_recipes [example_recipe ''1'' 1 tomato] empty_tables))"
    by code_simp
  have h3: "upsert_recipe (example_recipe ''2'' 2 (JObj []))
      (projr (upsert_recipes [example_recipe ''1'' 1 tomato] empty_tables)) = Inl ValueError"
    by code_simp
  have h4: "projr (upsert_recipes [example_recipe ''1'' 1 tomato] empty_tables) \<noteq> empty_tables"
    by code_simp
  show ?thesis
    using add_list_all_or_nothing [OF h1 h2 h3, of "[example_recipe ''3'' 3 tomato]"] h4
    by simp
qed

section \<open>Facts about well-typed payloads\<close>

lemma py_get_JObj [simp]: "py_get (JObj kvs) k = Inr (lookup kvs k)"
  by (simp add: py_get_def py_get_default_def lookup_def)

lemma opt_text_cases: "opt_text v \<longleftrightarrow> v = JNull \<or> (\<exists>s. v = JStr s)"
  by (cases v) (simp_all add: opt_text_def)

lemma opt_text_truthy: "opt_text v \<Longrightarrow> truthy v = nonempty_text v"
  by (auto simp: opt_text_cases truthy_def nonempty_text_def)

lemma bind_opt_text: "opt_text v \<Longrightarrow> \<exists>p. bind v = Inr p"
  by (auto simp: opt_text_cases bind_def)

lemma bind_opt_number: "opt_number v \<Longrightarrow> \<exists>p. bind v = Inr p"
  by (cases v) (auto simp: opt_number_def bind_def)

lemma bind_all_opt_text:
  "list_all opt_text vs \<Longrightarrow> \<exists>ps. bind_all vs = Inr ps"
proof (induction vs)
  case Nil
  show ?case by simp
next
  case (Cons v vs)
  then obtain p ps where "bind v = Inr p" "bind_all vs = Inr ps"
    using bind_opt_text by fastforce
  then show ?case by simp
qed

lemma bind_all_append:
  "bind_all (xs @ ys) = and_then (bind_all xs) (\<lambda>ps. and_then (bind_all ys) (\<lambda>qs. Inr (ps @ qs)))"
  by (induction xs) (auto simp: and_then_def split: sum.splits)

lemma localized_values_wf:
  "wf_localized v \<Longrightarrow> \<exists>vs. localized_values v = Inr vs \<and> list_all opt_text vs"
proof (cases v)
  case JNull
  then show ?thesis
    by (simp add: localized_values_def truthy_def lookup_def opt_text_def)
next
  case (JObj kvs)
  assume "wf_localized v"
  with JObj have "list_all (\<lambda>l. opt_text (lookup kvs l)) languages"
    by (simp add: wf_localized_def)
  then show ?thesis using JObj
    by (cases kvs) (auto simp: localized_values_def truthy_def languages_def lookup_def opt_text_def)
qed (simp_all add: wf_localized_def)

lemma first_title_wf:
  "list_all (\<lambda>l. opt_text (lookup ts l)) langs \<Longrightarrow>
   (if list_ex nonempty_text (map (lookup ts) langs)
    then \<exists>k. first_title (JObj ts) langs = Inr k
    else first_title (JObj ts) langs = Inl ValueError)"
proof (induction langs)
  case Nil
  show ?case by simp
next
  case (Cons l langs)
  then have o: "opt_text (lookup ts l)" by simp
  show ?case
  proof (cases "nonempty_text (lookup ts l)")
    case True
    then show ?thesis using o
      by (auto simp: opt_text_truthy nonempty_text_def split: json.splits)
  next
    case False
    then show ?thesis using o Cons
      by (simp add: opt_text_truthy)
  qed
qed

lemma canonical_key_wf:
  assumes "wf_details d"
  shows "if has_typ d \<or> has_title d then \<exists>k. canonical_ingredient_key d = Inr k
         else canonical_ingredient_key d = Inl ValueError"
proof -
  from assms obtain kvs where d: "d = JObj kvs" by (cases d) (simp_all add: wf_details_def)
  from assms d have ot: "opt_text (lookup kvs ''typ'')" by (simp add: wf_details_def)
  show ?thesis
  proof (cases "has_typ d")
    case True
    then show ?thesis using d ot
      by (auto simp: canonical_ingredient_key_def has_typ_def opt_text_truthy
          nonempty_text_def py_str_def split: json.splits)
  next
    case False
    then have nt: "\<not> truthy (lookup kvs ''typ'')" using d ot
      by (simp add: has_typ_def opt_text_truthy)
    show ?thesis
    proof (cases "map_of kvs ''localizedTitle''")
      case None
      then show ?thesis using d nt False
        by (simp add: canonical_ingredient_key_def py_get_default_def has_title_def titles_def
            lookup_def languages_def truthy_def nonempty_text_def)
    next
      case (Some v)
      with assms d obtain ts where v: "v = JObj ts"
        and wl: "list_all (\<lambda>l. opt_text (lookup ts l)) languages"
        by (cases v) (auto simp: wf_details_def wf_localized_def)
      have "has_title d = list_ex nonempty_text (map (lookup ts) languages)"
        using d Some v by (simp add: has_title_def titles_def lookup_def)
      then show ?thesis using first_title_wf[OF wl] d nt False Some v
        by (simp add: canonical_ingredient_key_def py_get_default_def)
    qed
  qed
qed

lemma ingredient_params_wf:
  assumes "wf_details d" "has_typ d \<or> has_title d"
  shows "\<exists>k ps. ingredient_params d = Inr (k, ps)"
proof -
  from assms obtain kvs where d: "d = JObj kvs" by (cases d) (simp_all add: wf_details_def)
  from canonical_key_wf[OF assms(1)] assms(2) obtain k where
    k: "canonical_ingredient_key d = Inr k" by auto
  from assms(1) d have ot: "opt_text (lookup kvs ''typ'')" "opt_text (lookup kvs ''category'')"
    and w2: "wf_localized (lookup kvs ''numberTitle'')"
    and w3: "wf_localized (lookup kvs ''uncountableTitle'')"
    by (simp_all add: wf_details_def)
  from assms(1) d have w1: "wf_localized (lookup kvs ''localizedTitle'')"
    by (auto simp: wf_details_def lookup_def wf_localized_def split: option.splits)
  from localized_values_wf[OF w1] localized_values_wf[OF w2] localized_values_wf[OF w3]
  obtain a b c where abc: "localized_values (lookup kvs ''localizedTitle'') = Inr a"
    "localized_values (lookup kvs ''numberTitle'') = Inr b"
    "localized_values (lookup kvs ''uncountableTitle'') = Inr c"
    and o: "list_all opt_text a" "list_all opt_text b" "list_all opt_text c"
    by blast
  have "list_all opt_text ([JStr k, lookup kvs ''typ'', lookup kvs ''category''] @ a @ b @ c)"
    using ot o by (simp add: opt_text_def)
  from bind_all_opt_text[OF this] obtain ps where
    "bind_all ([JStr k, lookup kvs ''typ'', lookup kvs ''category''] @ a @ b @ c) = Inr ps" ..
  then show ?thesis using d k abc
    by (simp add: ingredient_params_def)
qed

lemma ingredient_params_key:
  "ingredient_params d = Inr (k, ps) \<Longrightarrow> canonical_ingredient_key d = Inr k"
  by (auto simp: ingredient_params_def and_then_eq_Inr)

lemma ingredient_params_malformed:
  "canonical_ingredient_key d = Inl e \<Longrightarrow> ingredient_params d = Inl e"
  by (simp add: ingredient_params_def)

lemma insert_ingredient_recipes [simp]: "recipes (insert_ingredient row t) = recipes t"
  by (simp add: insert_ingredient_def)

lemma insert_ingredient_links [simp]:
  "recipe_ingredients (insert_ingredient row t) = recipe_ingredients t"
  by (simp add: insert_ingredient_def)

lemma insert_ingredient_key_list:
  "map i_key (ingredients (insert_ingredient row t))
   = (if i_key row \<in> set (map i_key (ingredients t)) then map i_key (ingredients t)
      else map i_key (ingredients t) @ [i_key row])"
proof -
  have "map (i_key \<circ> (\<lambda>r. if i_key r = i_key row then f r else r)) xs = map i_key xs"
    if "\<And>r. i_key (f r) = i_key r" for f :: "ingredient_row \<Rightarrow> ingredient_row" and xs
    using that by (induction xs) auto
  then show ?thesis
    by (simp add: insert_ingredient_def)
qed

lemma insert_ingredient_keys:
  "set (map i_key (ingredients (insert_ingredient row t)))
   = insert (i_key row) (set (map i_key (ingredients t)))"
  unfolding insert_ingredient_key_list by auto

lemma i_key_ingredient_row_of [simp]: "i_key (ingredient_row_of k ps) = k"
  by (simp add: ingredient_row_of_def)

lemma upsert_ingredient_eq:
  "upsert_ingredient d t = Inr (k, t') \<longleftrightarrow>
   (\<exists>ps. ingredient_params d = Inr (k, ps) \<and> t' = insert_ingredient (ingredient_row_of k ps) t)"
  by (auto simp: upsert_ingredient_def and_then_eq_Inr)

lemma upsert_ingredient_Inl:
  "upsert_ingredient d t = Inl e \<longleftrightarrow> ingredient_params d = Inl e"
  by (auto simp: upsert_ingredient_def and_then_eq_Inl split: prod.splits)

lemma insert_link_recipes:
  "insert_link rid k q m pos t = Inr t' \<Longrightarrow>
   recipes t' = recipes t \<and> ingredients t' = ingredients t"
  by (auto simp: insert_link_def split: option.splits if_splits)

lemma insert_link_ok:
  "Some rid \<in> set (map r_id (recipes t)) \<Longrightarrow> k \<in> set (map i_key (ingredients t)) \<Longrightarrow>
   \<exists>t'. insert_link (Some rid) k q m pos t = Inr t'"
  by (auto simp: insert_link_def)

lemma insert_recipe_id_list:
  "map r_id (recipes (insert_recipe new t))
   = (if r_id new \<noteq> None \<and> r_id new \<in> set (map r_id (recipes t)) then map r_id (recipes t)
      else map r_id (recipes t) @ [r_id new])"
proof -
  have "map (r_id \<circ> (\<lambda>r. if r_id r = r_id new then f r else r)) xs = map r_id xs"
    if "\<And>r. r_id (f r) = r_id r" for f :: "recipe_row \<Rightarrow> recipe_row" and xs
    using that by (induction xs) auto
  then show ?thesis
    by (simp add: insert_recipe_def)
qed

lemma insert_recipe_other [simp]:
  "ingredients (insert_recipe new t) = ingredients t"
  "recipe_ingredients (insert_recipe new t) = recipe_ingredients t"
  by (simp_all add: insert_recipe_def)

lemma delete_links_other [simp]:
  "recipes (delete_links rid t) = recipes t"
  "ingredients (delete_links rid t) = ingredients t"
  by (simp_all add: delete_links_def)

lemma wf_details_empty: "wf_details (JObj [])"
  by (simp add: wf_details_def lookup_def opt_text_def wf_localized_def)

lemma wf_ingredient_details:
  "wf_ingredient x \<Longrightarrow>
   py_get_default x ''ingredient'' (JObj []) = Inr (details_of x) \<and> wf_details (details_of x)"
  by (cases x)
     (auto simp: wf_ingredient_def py_get_default_def details_of_def wf_details_empty
           split: option.splits)

lemma upsert_links_wf:
  assumes "list_all wf_ingredient xs" "text_affinity rid = Some i"
    "Some i \<in> set (map r_id (recipes t))"
  shows "if list_ex malformed xs then upsert_links rid pos xs t = Inl ValueError
         else \<exists>t'. upsert_links rid pos xs t = Inr t'"
  using assms
proof (induction xs arbitrary: pos t)
  case Nil
  show ?case by simp
next
  case (Cons x xs)
  then have wx: "wf_ingredient x" and wxs: "list_all wf_ingredient xs" by simp_all
  from wx obtain kvs where x: "x = JObj kvs" by (cases x) (simp_all add: wf_ingredient_def)
  note d = wf_ingredient_details[OF wx]
  show ?case
  proof (cases "malformed x")
    case True
    then have "canonical_ingredient_key (details_of x) = Inl ValueError"
      using canonical_key_wf[of "details_of x"] d by (simp add: malformed_def)
    then have "upsert_ingredient (details_of x) t = Inl ValueError"
      by (simp add: upsert_ingredient_Inl ingredient_params_malformed)
    then show ?thesis using True d by simp
  next
    case False
    then have "has_typ (details_of x) \<or> has_title (details_of x)" by (auto simp: malformed_def)
    from ingredient_params_wf[OF _ this] d obtain k ps where
      ps: "ingredient_params (details_of x) = Inr (k, ps)" by blast
    define t1 where "t1 = insert_ingredient (ingredient_row_of k ps) t"
    have u: "upsert_ingredient (details_of x) t = Inr (k, t1)"
      by (simp add: upsert_ingredient_eq ps t1_def)
    have k: "k \<in> set (map i_key (ingredients t1))"
      unfolding t1_def insert_ingredient_keys by simp
    have r1: "Some i \<in> set (map r_id (recipes t1))"
      using Cons.prems(3) by (simp add: t1_def)
    from wx x have "opt_number (lookup kvs ''quantity'')" "opt_text (lookup kvs ''measure'')"
      by (simp_all add: wf_ingredient_def)
    then obtain q m where
      qm: "bind (lookup kvs ''quantity'') = Inr q" "bind (lookup kvs ''measure'') = Inr m"
      using bind_opt_number bind_opt_text by blast
    from insert_link_ok[OF r1 k] obtain t2 where
      t2: "insert_link (Some i) k q (text_affinity m) pos t1 = Inr t2" by blast
    have r2: "Some i \<in> set (map r_id (recipes t2))"
      using insert_link_recipes[OF t2] r1 by simp
    have step: "upsert_links rid pos (x # xs) t = upsert_links rid (Suc pos) xs t2"
      using d u qm t2 x Cons.prems(2) by simp
    show ?thesis
      using Cons.IH[OF wxs Cons.prems(2) r2, of "Suc pos"] False step by simp
  qed
qed

lemma wf_recipe_upsert:
  assumes "wf_recipe recipe"
  shows "\<exists>i ts. recipe_id_of (data recipe) = Inr (JStr i)
     \<and> upsert_recipe recipe t =
         upsert_links (Text i) 0 (ingredient_list (data recipe))
           (delete_links (Some i)
             (insert_recipe (recipe_row_of (Text i) (isoformat (date recipe)) ts (data recipe)) t))"
proof -
  from assms obtain kvs where d: "data recipe = JObj kvs"
    by (cases "data recipe") (simp_all add: wf_recipe_def)
  from assms d obtain i where i: "recipe_id_of (data recipe) = Inr (JStr i)"
    by (auto simp: wf_recipe_def split: sum.splits json.splits)
  from assms d have "wf_localized (lookup kvs ''localizedTitle'')"
    by (simp add: wf_recipe_def)
  from localized_values_wf[OF this] obtain vs where
    vs: "localized_values (lookup kvs ''localizedTitle'') = Inr vs" "list_all opt_text vs" by blast
  from bind_all_opt_text[OF vs(2)] obtain ts where ts: "bind_all vs = Inr ts" ..
  have pre: "recipe_prelude recipe = Inr (JStr i, data recipe, vs)"
    using assms i vs d by (simp add: recipe_prelude_def json_dumps_def wf_recipe_def)
  have it: "and_then (py_get_default (data recipe) ''ingredients'' (JArr [])) py_iter
      = Inr (ingredient_list (data recipe))"
    using assms d
    by (auto simp: wf_recipe_def py_get_default_def ingredient_list_def py_iter_def
        split: option.splits json.splits)
  have "upsert_recipe recipe t =
         upsert_links (Text i) 0 (ingredient_list (data recipe))
           (delete_links (Some i)
             (insert_recipe (recipe_row_of (Text i) (isoformat (date recipe)) ts (data recipe)) t))"
    using it ts pre
    by (simp add: upsert_recipe_def bind_def text_affinity_def Let_def)
       (auto simp: and_then_def split: sum.splits)
  with i show ?thesis by blast
qed

lemma wf_recipe_ingredients:
  "wf_recipe recipe \<Longrightarrow> list_all wf_ingredient (ingredient_list (data recipe))"
  by (auto simp: wf_recipe_def ingredient_list_def split: json.splits option.splits)

section \<open>Rejection of a malformed ingredient\<close>

text \<open>
  On a well-typed recipe with an entry whose ingredient has neither a \<^verbatim>\<open>typ\<close> nor
  a non-empty localized title, \<^verbatim>\<open>add\<close> raises \<^verbatim>\<open>ValueError\<close> and the database file
  holds the tables it held before the call. Well-typed leaves out an explicit
  \<^verbatim>\<open>None\<close> as \<^verbatim>\<open>ingredient\<close> or \<^verbatim>\<open>localizedTitle\<close>; Claim C2 below is about those.
\<close>

lemma add_rejects_malformed_ingredient_typed:
  assumes "wf_recipe recipe" "x \<in> set (ingredient_list (data recipe))" "malformed x"
    "db_file s = Some (Tables t)"
  shows "add recipe s = (Inl ValueError, s\<lparr>backup_file := Some (Tables t)\<rparr>)"
proof -
  from wf_recipe_upsert[OF assms(1), of t] obtain i ts where
    u: "upsert_recipe recipe t =
         upsert_links (Text i) 0 (ingredient_list (data recipe))
           (delete_links (Some i)
             (insert_recipe (recipe_row_of (Text i) (isoformat (date recipe)) ts (data recipe)) t))"
    by blast
  have ex: "list_ex malformed (ingredient_list (data recipe))"
    using assms(2,3) by (auto simp: list_ex_iff)
  have "Some i \<in> set (map r_id (recipes (delete_links (Some i)
             (insert_recipe (recipe_row_of (Text i) (isoformat (date recipe)) ts (data recipe)) t))))"
    by (simp add: insert_recipe_id_list recipe_row_of_def text_affinity_def del: set_map)
  from upsert_links_wf[OF wf_recipe_ingredients[OF assms(1)] _ this, of "Text i" 0] ex
  have "upsert_recipe recipe t = Inl ValueError"
    by (simp add: u text_affinity_def)
  then show ?thesis using assms(4)
    by (simp add: add_def connect_def create_backup_def)
qed

lemma add_rejects_malformed_ingredient_typed_example:
  "add (example_recipe ''2'' 2 (JObj [(''category'', JStr ''unknown'')]))
     (snd (add (example_recipe ''1'' 1 tomato) fresh_store))
   = (Inl ValueError,
      (snd (add (example_recipe ''1'' 1 tomato) fresh_store))
        \<lparr>backup_file := db_file (snd (add (example_recipe ''1'' 1 tomato) fresh_store))\<rparr>)"
proof -
  let ?r = "example_recipe ''2'' 2 (JObj [(''category'', JStr ''unknown'')])"
  let ?s = "snd (add (example_recipe ''1'' 1 tomato) fresh_store)"
  let ?x = "JObj [(''quantity'', JNum 2), (''measure'', JStr ''piece''),
            (''ingredient'', JObj [(''category'', JStr ''unknown'')])]"
  have h1: "wf_recipe ?r" by code_simp
  have h2: "?x \<in> set (ingredient_list (data ?r))" by code_simp
  have h3: "malformed ?x" by code_simp
  have h4: "db_file ?s = Some (Tables (projr (upsert_recipe (example_recipe ''1'' 1 tomato) empty_tables)))"
    by code_simp
  show ?thesis
    using add_rejects_malformed_ingredient_typed [OF h1 h2 h3 h4] h4 by simp
qed

text \<open>
  Claim C2. An ingredient lacking both a \<^verbatim>\<open>typ\<close> and any non-empty localized title
  is to make \<^verbatim>\<open>add\<close> raise the malformed-ingredient error (\<^verbatim>\<open>ValueError\<close>) and
  leave the tables unchanged. For the ingredient
  \<^verbatim>\<open>{"category": "unknown", "localizedTitle": None}\<close>, and for an entry with
  \<^verbatim>\<open>"ingredient": None\<close>, the tables are unchanged but the error is
  \<^verbatim>\<open>AttributeError\<close>: \<^verbatim>\<open>_canonical_ingredient_key\<close> reads the titles with
  \<^verbatim>\<open>get("localizedTitle", {})\<close>, whose default stands in only for an absent key,
  where \<^verbatim>\<open>_localized_values\<close> writes \<^verbatim>\<open>values or {}\<close>.
\<close>

theorem add_none_title_raises_attribute_error:
  "malformed (JObj [(''quantity'', JNum 2), (''measure'', JStr ''piece''),
      (''ingredient'', JObj [(''category'', JStr ''unknown''), (''localizedTitle'', JNull)])])
   \<and> add (example_recipe ''2'' 2
          (JObj [(''category'', JStr ''unknown''), (''localizedTitle'', JNull)]))
        (snd (add (example_recipe ''1'' 1 tomato) fresh_store))
      = (Inl AttributeError,
         (snd (add (example_recipe ''1'' 1 tomato) fresh_store))
           \<lparr>backup_file := db_file (snd (add (example_recipe ''1'' 1 tomato) fresh_store))\<rparr>)
   \<and> malformed (JObj [(''quantity'', JNum 2), (''ingredient'', JNull)])
   \<and> fst (add (example_recipe ''2'' 2 JNull) fresh_store) = Inl AttributeError
   \<and> fst (add (example_recipe ''2'' 2 (JObj [(''category'', JStr ''unknown'')])) fresh_store)
      = Inl ValueError"
  by code_simp

section \<open>Facts about dates\<close>

lemma of_char_digit: "n < 10 \<Longrightarrow> (of_char (digit n) :: nat) = 48 + n"
  by (simp add: digit_def)

lemma digit_val_digit: "n < 10 \<Longrightarrow> digit_val (digit n) = Some n"
  by (simp add: digit_val_def of_char_digit)

lemma digit_digit_val: "digit_val c = Some v \<Longrightarrow> v < 10 \<and> digit v = c"
proof -
  assume "digit_val c = Some v"
  then have r: "48 \<le> (of_char c :: nat)" "(of_char c :: nat) \<le> 57" and v: "v = of_char c - 48"
    by (auto simp: digit_val_def Let_def split: if_splits)
  then have "48 + v = of_char c" by simp
  then have "digit v = char_of (of_char c :: nat)" by (simp add: digit_def)
  then show ?thesis using r v by simp
qed

lemma div_mod_10: "b < 10 \<Longrightarrow> (a * 10 + b) div 10 = a \<and> (a * 10 + b) mod 10 = (b::nat)"
  by simp

lemma digits4:
  assumes "va < 10" "vb < 10" "vc < 10" "ve < (10::nat)"
    and n: "n = va * 1000 + (vb * 100 + (vc * 10 + ve))"
  shows "n div 1000 mod 10 = va \<and> n div 100 mod 10 = vb \<and> n div 10 mod 10 = vc
         \<and> n mod 10 = ve \<and> n < 10000"
proof -
  have h: "n = ((va * 10 + vb) * 10 + vc) * 10 + ve" using n by simp
  have d1: "n div 10 = (va * 10 + vb) * 10 + vc" and m1: "n mod 10 = ve"
    using div_mod_10[OF assms(4), of "(va * 10 + vb) * 10 + vc"] h by simp_all
  have "n div 100 = n div 10 div 10" by (simp add: div_mult2_eq[symmetric])
  then have d2: "n div 100 = va * 10 + vb" and m2: "n div 10 mod 10 = vc"
    using div_mod_10[OF assms(3), of "va * 10 + vb"] d1 by simp_all
  have "n div 1000 = n div 100 div 10" by (simp add: div_mult2_eq[symmetric])
  then have d3: "n div 1000 = va" and m3: "n div 100 mod 10 = vb"
    using div_mod_10[OF assms(2), of va] d2 by simp_all
  show ?thesis using d3 m3 m2 m1 assms n by simp
qed

lemma digits2:
  assumes "va < 10" "vb < (10::nat)" and n: "n = va * 10 + vb"
  shows "n div 10 mod 10 = va \<and> n mod 10 = vb \<and> n < 100"
  using assms by simp

lemma pad4_sum:
  assumes "(n::nat) < 10000"
  shows "n = (n div 1000 mod 10) * 1000 + ((n div 100 mod 10) * 100 + ((n div 10 mod 10) * 10 + n mod 10))"
proof -
  define q1 q2 q3 where "q1 = n div 10" and "q2 = n div 100" and "q3 = n div 1000"
  have "q3 < 10" using assms by (simp add: q3_def div_less_iff_less_mult)
  then have a: "q3 mod 10 = q3" by simp
  have "q2 div 10 = q3" "q1 div 10 = q2"
    by (simp_all add: q1_def q2_def q3_def div_mult2_eq[symmetric])
  then have e: "q2 = q3 * 10 + q2 mod 10" "q1 = q2 * 10 + q1 mod 10"
    using div_mult_mod_eq[of q2 10] div_mult_mod_eq[of q1 10] by simp_all
  have "n = q1 * 10 + n mod 10" by (simp add: q1_def)
  also have "\<dots> = (q2 * 10 + q1 mod 10) * 10 + n mod 10" using e(2) by simp
  also have "\<dots> = ((q3 * 10 + q2 mod 10) * 10 + q1 mod 10) * 10 + n mod 10" using e(1) by simp
  finally have "n = q3 * 1000 + (q2 mod 10 * 100 + (q1 mod 10 * 10 + n mod 10))" by simp
  then show ?thesis using a by (simp add: q1_def q2_def q3_def)
qed

lemma number_pad4: "n < 10000 \<Longrightarrow> number (pad4 n) = Some n"
  using pad4_sum[of n] by (simp add: pad4_def digit_val_digit)

lemma number_pad2: "n < 100 \<Longrightarrow> number (pad2 n) = Some n"
  by (simp add: pad2_def digit_val_digit)

lemma length_isoformat [simp]: "length (isoformat d) = 10"
  by (simp add: isoformat_def pad4_def pad2_def)

lemma days_in_month_le: "days_in_month y m \<le> 31"
  by (simp add: days_in_month_def)

lemma fromisoformat_isoformat:
  assumes "valid_date d"
  shows "fromisoformat (isoformat d) = Some d"
proof -
  obtain y m dd where d: "d = \<lparr>year = y, month = m, day = dd\<rparr>" by (cases d) simp
  from assms have y: "y < 10000" and m: "m < 100" and dd: "dd < 100"
    using days_in_month_le[of y m] by (auto simp: valid_date_def d)
  have t4: "take 4 (isoformat d) = pad4 y"
    by (simp add: isoformat_def pad4_def d)
  have t2: "take 2 (drop 5 (isoformat d)) = pad2 m"
    by (simp add: isoformat_def pad4_def pad2_def d)
  have d8: "drop 8 (isoformat d) = pad2 dd"
    by (simp add: isoformat_def pad4_def pad2_def d)
  have c: "isoformat d ! 4 = CHR ''-''" "isoformat d ! 7 = CHR ''-''"
    by (simp_all add: isoformat_def pad4_def pad2_def)
  show ?thesis
    using assms
    by (simp add: fromisoformat_def t4 t2 d8 c number_pad4[OF y] number_pad2[OF m] number_pad2[OF dd])
       (simp add: d)
qed

lemma number4:
  "number [a, b, c, e] = Some n \<Longrightarrow> pad4 n = [a, b, c, e] \<and> n < 10000"
proof -
  assume "number [a, b, c, e] = Some n"
  then obtain va vb vc ve where v: "digit_val a = Some va" "digit_val b = Some vb"
    "digit_val c = Some vc" "digit_val e = Some ve"
    and n: "n = va * 1000 + (vb * 100 + (vc * 10 + ve))"
    by (auto split: option.splits)
  from v have lt: "va < 10" "vb < 10" "vc < 10" "ve < 10"
    and dg: "digit va = a" "digit vb = b" "digit vc = c" "digit ve = e"
    using digit_digit_val by blast+
  from digits4[OF lt n] show ?thesis using dg by (simp add: pad4_def)
qed

lemma number2:
  "number [a, b] = Some n \<Longrightarrow> pad2 n = [a, b] \<and> n < 100"
proof -
  assume "number [a, b] = Some n"
  then obtain va vb where v: "digit_val a = Some va" "digit_val b = Some vb"
    and n: "n = va * 10 + vb"
    by (auto split: option.splits)
  from v have lt: "va < 10" "vb < 10" and dg: "digit va = a" "digit vb = b"
    using digit_digit_val by blast+
  from digits2[OF lt n] show ?thesis using dg by (simp add: pad2_def)
qed

lemma length10:
  "length s = 10 \<Longrightarrow> \<exists>a b c d e f g h i j. s = [a, b, c, d, e, f, g, h, i, j]"
  by (auto simp: length_Suc_conv numeral_eq_Suc)

lemma isoformat_fromisoformat:
  assumes "fromisoformat s = Some d"
  shows "s = isoformat d \<and> valid_date d"
proof -
  from assms have l: "length s = 10"
    by (auto simp: fromisoformat_def split: if_splits)
  from length10[OF l] obtain a b c e f g h i j k where s: "s = [a, b, c, e, f, g, h, i, j, k]"
    by blast
  from assms s have sep: "f = CHR ''-''" "i = CHR ''-''"
    by (auto simp: fromisoformat_def split: if_splits)
  from assms s obtain y m dd where
    n: "number [a, b, c, e] = Some y" "number [g, h] = Some m" "number [j, k] = Some dd"
    and d: "d = \<lparr>year = y, month = m, day = dd\<rparr>" and v: "valid_date d"
    by (auto simp: fromisoformat_def Let_def split: if_splits option.splits)
  from number4[OF n(1)] number2[OF n(2)] number2[OF n(3)] s sep d
  have "s = isoformat d" by (simp add: isoformat_def)
  with v show ?thesis by simp
qed

lemma isoformat_inj:
  "valid_date a \<Longrightarrow> valid_date b \<Longrightarrow> isoformat a = isoformat b \<Longrightarrow> a = b"
  using fromisoformat_isoformat by (metis option.inject)

lemma upsert_links_recipes:
  "upsert_links rid pos xs t = Inr t' \<Longrightarrow> recipes t' = recipes t"
proof (induction xs arbitrary: pos t)
  case Nil
  then show ?case by simp
next
  case (Cons x xs)
  from Cons.prems obtain d k t1 q m ps t2 where
    u: "upsert_ingredient d t = Inr (k, t1)"
    and l: "insert_link (text_affinity rid) k q m pos t1 = Inr t2"
    and r: "upsert_links rid (Suc pos) xs t2 = Inr t'"
    by (auto simp: and_then_eq_Inr)
  from u have "recipes t1 = recipes t" by (auto simp: upsert_ingredient_eq)
  moreover from l have "recipes t2 = recipes t1" by (rule insert_link_recipes[THEN conjunct1])
  ultimately show ?case using Cons.IH[OF r] by simp
qed






lemma add_success:
  "db_file s = Some (Tables t) \<Longrightarrow>
   add recipe s = (Inr (), s') \<longleftrightarrow>
   (\<exists>t'. upsert_recipe recipe t = Inr t'
      \<and> s' = s\<lparr>backup_file := Some (Tables t), db_file := Some (Tables t')\<rparr>)"
  by (auto simp: add_def connect_def create_backup_def and_then_def split: sum.splits)

section \<open>Round trip\<close>




section \<open>Synchronised dates\<close>

lemma insert_recipe_date:
  "\<exists>row \<in> set (recipes (insert_recipe new t)). r_date row = r_date new"
proof (cases "r_id new \<noteq> None \<and> r_id new \<in> set (map r_id (recipes t))")
  case True
  then obtain r where r: "r \<in> set (recipes t)" "r_id r = r_id new" by auto
  define f where "f = (\<lambda>r::recipe_row. if r_id r = r_id new then
              r\<lparr>r_date := r_date new,
                r_title_en := r_title_en new,
                r_title_de := r_title_de new,
                r_title_es := r_title_es new,
                r_title_fr := r_title_fr new,
                r_title_pt := r_title_pt new,
                r_raw_json := r_raw_json new\<rparr>
              else r)"
  have "recipes (insert_recipe new t) = map f (recipes t)"
    using True by (simp add: insert_recipe_def f_def del: set_map)
  then have "f r \<in> set (recipes (insert_recipe new t))" using r(1) by simp
  moreover have "r_date (f r) = r_date new" using r(2) by (simp add: f_def)
  ultimately show ?thesis by blast
next
  case False
  then show ?thesis by (auto simp: insert_recipe_def)
qed

lemma upsert_recipe_date:
  assumes "upsert_recipe recipe t = Inr t'"
  shows "\<exists>row \<in> set (recipes t'). r_date row = isoformat (date recipe)"
proof -
  from assms obtain rid ts raw items where
    r: "upsert_links rid 0 items
          (delete_links (text_affinity rid)
            (insert_recipe (recipe_row_of rid (isoformat (date recipe)) ts raw) t))
        = Inr t'"
    by (auto simp: upsert_recipe_def and_then_eq_Inr Let_def)
  from insert_recipe_date[of "recipe_row_of rid (isoformat (date recipe)) ts raw" t]
  show ?thesis using upsert_links_recipes[OF r] by (simp add: recipe_row_of_def)
qed

lemma date_column_iff:
  "valid_date d \<Longrightarrow> fromisoformat x = Some d \<longleftrightarrow> x = isoformat d"
  using fromisoformat_isoformat isoformat_fromisoformat by blast

text \<open>
  Claim C7. \<^verbatim>\<open>needs_to_be_synced(d)\<close> is true just when no row of the table of
  recipes is for \<open>d\<close>, a row being for the date that its date column reads as; and it
  is false for the date of a recipe right after \<^verbatim>\<open>add\<close> has stored that recipe.
\<close>

theorem needs_to_be_synced_iff:
  assumes "db_file s = Some (Tables t)" "valid_date d"
  shows "needs_to_be_synced d s
           = (Inr (\<not> list_ex (\<lambda>row. fromisoformat (r_date row) = Some d) (recipes t)), s)
       \<and> (add recipe s = (Inr (), s') \<longrightarrow>
            fst (needs_to_be_synced (date recipe) s') = Inr False)"
proof
  have "find (\<lambda>r. r_date r = isoformat d) (recipes t) = None
      \<longleftrightarrow> \<not> list_ex (\<lambda>row. fromisoformat (r_date row) = Some d) (recipes t)"
    by (auto simp add: find_None_iff list_ex_iff date_column_iff[OF assms(2)])
  then show "needs_to_be_synced d s
           = (Inr (\<not> list_ex (\<lambda>row. fromisoformat (r_date row) = Some d) (recipes t)), s)"
    using assms(1) by (simp add: needs_to_be_synced_def connect_def)
next
  show "add recipe s = (Inr (), s') \<longrightarrow>
            fst (needs_to_be_synced (date recipe) s') = Inr False"
  proof
    assume "add recipe s = (Inr (), s')"
    with assms(1) obtain t' where u: "upsert_recipe recipe t = Inr t'"
      and s': "s' = s\<lparr>backup_file := Some (Tables t), db_file := Some (Tables t')\<rparr>"
      by (auto simp: add_success)
    from upsert_recipe_date[OF u] have
      "find (\<lambda>r. r_date r = isoformat (date recipe)) (recipes t') \<noteq> None"
      by (auto simp: find_None_iff)
    then show "fst (needs_to_be_synced (date recipe) s') = Inr False"
      using s' by (simp add: needs_to_be_synced_def connect_def)
  qed
qed

theorem needs_to_be_synced_iff_witness:
  "needs_to_be_synced (date (example_recipe ''1'' 1 tomato)) fresh_store = (Inr True, fresh_store)
   \<and> fst (needs_to_be_synced (date (example_recipe ''1'' 1 tomato))
        (snd (add (example_recipe ''1'' 1 tomato) fresh_store))) = Inr False
   \<and> fst (needs_to_be_synced \<lparr>year = 2024, month = 5, day = 18\<rparr>
        (snd (add (example_recipe ''1'' 1 tomato) fresh_store))) = Inr True"
proof -
  have h1: "db_file fresh_store = Some (Tables empty_tables)" by code_simp
  have h2: "valid_date (date (example_recipe ''1'' 1 tomato))" by code_simp
  have h4: "add (example_recipe ''1'' 1 tomato) fresh_store
      = (Inr (), snd (add (example_recipe ''1'' 1 tomato) fresh_store))" by code_simp
  have h5: "fst (needs_to_be_synced \<lparr>year = 2024, month = 5, day = 18\<rparr>
        (snd (add (example_recipe ''1'' 1 tomato) fresh_store))) = Inr True" by code_simp
  show ?thesis
    using needs_to_be_synced_iff [OF h1 h2, of "example_recipe ''1'' 1 tomato"
        "snd (add (example_recipe ''1'' 1 tomato) fresh_store)"] h4 h5
    by (simp add: empty_tables_def)
qed

section \<open>Upserts replace whole rows\<close>

lemma filter_map_update_one:
  assumes "distinct (map kf xs)" "k \<in> set (map kf xs)" "\<And>r. kf r = k \<Longrightarrow> f r = c" "kf c = k"
  shows "filter (\<lambda>r. kf r = k) (map (\<lambda>r. if kf r = k then f r else r) xs) = [c]"
  using assms(1,2)
proof (induction xs)
  case Nil
  then show ?case by simp
next
  case (Cons x xs)
  show ?case
  proof (cases "kf x = k")
    case True
    then have "k \<notin> set (map kf xs)" using Cons.prems(1) by auto
    then have "\<forall>x \<in> set xs. kf x \<noteq> k" by auto
    then have "filter (\<lambda>r. kf r = k) (map (\<lambda>r. if kf r = k then f r else r) xs) = []"
      by (simp add: filter_empty_conv)
    then show ?thesis using True assms(3,4) by simp
  next
    case False
    then show ?thesis using Cons by auto
  qed
qed

lemma insert_recipe_filter:
  assumes "distinct (map r_id (recipes t))" "r_id new = Some i"
  shows "filter (\<lambda>r. r_id r = Some i) (recipes (insert_recipe new t)) = [new]"
proof (cases "Some i \<in> set (map r_id (recipes t))")
  case True
  have eq: "r\<lparr>r_date := r_date new, r_title_en := r_title_en new, r_title_de := r_title_de new,
              r_title_es := r_title_es new, r_title_fr := r_title_fr new,
              r_title_pt := r_title_pt new, r_raw_json := r_raw_json new\<rparr> = new"
    if "r_id r = Some i" for r :: recipe_row
    using that assms(2) by (cases r, cases new) simp
  show ?thesis
    using True assms
      filter_map_update_one[OF assms(1) True, of
        "\<lambda>r. r\<lparr>r_date := r_date new, r_title_en := r_title_en new, r_title_de := r_title_de new,
              r_title_es := r_title_es new, r_title_fr := r_title_fr new,
              r_title_pt := r_title_pt new, r_raw_json := r_raw_json new\<rparr>" new] eq
    by (simp add: insert_recipe_def del: set_map)
next
  case False
  then have "\<forall>r \<in> set (recipes t). r_id r \<noteq> Some i" by force
  then have "filter (\<lambda>r. r_id r = Some i) (recipes t) = []"
    by (simp add: filter_empty_conv)
  then show ?thesis using False assms(2) by (simp add: insert_recipe_def del: set_map)
qed


lemma bind_all_two:
  "bind_all [a, b] = Inr ps \<Longrightarrow> \<exists>q m. bind a = Inr q \<and> bind b = Inr m \<and> ps = [q, m]"
  by (auto simp: and_then_eq_Inr)

lemma py_get_default_details:
  "py_get_default x ''ingredient'' (JObj []) = Inr d \<Longrightarrow> d = details_of x \<and> (\<exists>kvs. x = JObj kvs)"
  by (cases x) (auto simp: py_get_default_def details_of_def split: option.splits)

lemma insert_link_append:
  assumes "insert_link (Some i) k q m pos t = Inr t'"
    "\<forall>l \<in> set (recipe_ingredients t). l_recipe_id l = i \<longrightarrow> l_position l < pos"
  shows "recipe_ingredients t' = recipe_ingredients t @
      [\<lparr>l_recipe_id = i, l_ingredient_key = k, l_quantity = q, l_measure = m, l_position = pos\<rparr>]"
proof -
  have "(i, pos) \<notin> set (map (\<lambda>l. (l_recipe_id l, l_position l)) (recipe_ingredients t))"
    using assms(2) by auto
  then show ?thesis using assms(1)
    by (auto simp: insert_link_def simp del: set_map split: if_splits)
qed

lemma new_links_Cons:
  "new_links i pos (x # xs) = new_link i pos x # new_links i (Suc pos) xs"
  by (simp add: new_links_def)

lemma upsert_links_filter:
  assumes "upsert_links rid pos xs t = Inr t'" "text_affinity rid = Some i"
    "\<forall>l \<in> set (recipe_ingredients t). l_recipe_id l = i \<longrightarrow> l_position l < pos"
  shows "filter (\<lambda>l. l_recipe_id l = i) (recipe_ingredients t')
       = filter (\<lambda>l. l_recipe_id l = i) (recipe_ingredients t) @ new_links i pos xs"
  using assms
proof (induction xs arbitrary: pos t)
  case Nil
  then show ?case by (simp add: new_links_def)
next
  case (Cons x xs)
  from Cons.prems(1) obtain d k t1 qv mv ps t2 where
    gd: "py_get_default x ''ingredient'' (JObj []) = Inr d"
    and u: "upsert_ingredient d t = Inr (k, t1)"
    and gq: "py_get x ''quantity'' = Inr qv" and gm: "py_get x ''measure'' = Inr mv"
    and b: "bind_all [qv, mv] = Inr ps"
    and l: "insert_link (text_affinity rid) k (ps ! 0) (text_affinity (ps ! 1)) pos t1 = Inr t2"
    and r: "upsert_links rid (Suc pos) xs t2 = Inr t'"
    by (auto simp: and_then_eq_Inr)
  from py_get_default_details[OF gd] have d: "d = details_of x" by simp
  from u have k: "canonical_ingredient_key d = Inr k" and t1: "recipe_ingredients t1 = recipe_ingredients t"
    by (auto simp: upsert_ingredient_eq ingredient_params_key)
  from bind_all_two[OF b] obtain q m where qm: "bind qv = Inr q" "bind mv = Inr m" "ps = [q, m]"
    by blast
  have nl: "new_link i pos x =
      \<lparr>l_recipe_id = i, l_ingredient_key = k, l_quantity = q, l_measure = text_affinity m,
       l_position = pos\<rparr>"
    using k d gq gm qm by (simp add: new_link_def)
  have inv1: "\<forall>l \<in> set (recipe_ingredients t1). l_recipe_id l = i \<longrightarrow> l_position l < pos"
    using Cons.prems(3) t1 by simp
  from insert_link_append[OF _ inv1, of k q "text_affinity m" t2] l qm Cons.prems(2)
  have t2: "recipe_ingredients t2 = recipe_ingredients t @ [new_link i pos x]"
    by (simp add: nl t1)
  have inv2: "\<forall>l \<in> set (recipe_ingredients t2). l_recipe_id l = i \<longrightarrow> l_position l < Suc pos"
    using Cons.prems(3) by (auto simp: t2 nl less_Suc_eq)
  have "l_recipe_id (new_link i pos x) = i" by (simp add: nl)
  then show ?case
    using Cons.IH[OF r Cons.prems(2) inv2] by (simp add: t2 new_links_Cons)
qed

lemma py_iter_items:
  assumes "py_get_default d ''ingredients'' (JArr []) = Inr ings" "py_iter ings = Inr items"
    "upsert_links rid pos items t = Inr t'"
  shows "items = ingredient_list d"
proof -
  from assms(1) obtain kvs where d: "d = JObj kvs" by (cases d) (auto simp: py_get_default_def)
  have el: "items = [] \<or> (\<exists>kv. hd items = JStr kv) \<or> (\<exists>xs. ings = JArr xs)"
    using assms(2) by (cases ings) (auto simp: py_iter_def hd_map)
  have "\<not> (\<exists>kv rest. items = JStr kv # rest)"
    using assms(3) by (auto simp: and_then_eq_Inr py_get_default_def)
  then have "items = [] \<or> (\<exists>xs. ings = JArr xs)"
    using el by (cases items) auto
  then show ?thesis
    using assms(1,2) d
    by (cases ings) (auto simp: py_get_default_def ingredient_list_def py_iter_def
        split: option.splits)
qed

lemma delete_links_filter:
  "filter (\<lambda>l. l_recipe_id l = i) (recipe_ingredients (delete_links (Some i) t)) = []"
  by (auto simp: delete_links_def filter_empty_conv)

lemma delete_links_none:
  "\<forall>l \<in> set (recipe_ingredients (delete_links (Some i) t)). l_recipe_id l = i \<longrightarrow> l_position l < 0"
  by (auto simp: delete_links_def)

section \<open>Adding a recipe again\<close>

text \<open>
  Claim C5. After \<^verbatim>\<open>add\<close> has stored a recipe with the id \<open>i\<close>, whatever was
  stored under that id before, the table of recipes has one row with that id, and it
  is the row built from the recipe just added (every column, the payload included,
  nothing of an older version); and the links of the recipe are the links built from
  its ingredient list, one for each position of that list and no other: the links
  stored before were deleted and none of their positions is left.
\<close>

theorem readd_replaces:
  assumes "db_file s = Some (Tables t)" "distinct (map r_id (recipes t))"
    "recipe_id_of (data recipe) = Inr (JStr i)" "add recipe s = (Inr (), s')"
  shows "\<exists>t'. db_file s' = Some (Tables t')
     \<and> filter (\<lambda>r. r_id r = Some i) (recipes t') = [stored_row i recipe]
     \<and> filter (\<lambda>l. l_recipe_id l = i) (recipe_ingredients t')
         = new_links i 0 (ingredient_list (data recipe))"
proof -
  from assms(1,4) obtain t' where u: "upsert_recipe recipe t = Inr t'"
    and s': "s' = s\<lparr>backup_file := Some (Tables t), db_file := Some (Tables t')\<rparr>"
    by (auto simp: add_success)
  from u assms(3) obtain lt vs ts ings items where
    lt: "py_get (data recipe) ''localizedTitle'' = Inr lt" and vs: "localized_values lt = Inr vs"
    and ts: "bind_all vs = Inr ts"
    and ings: "py_get_default (data recipe) ''ingredients'' (JArr []) = Inr ings"
    and items: "py_iter ings = Inr items"
    and r: "upsert_links (Text i) 0 items
          (delete_links (Some i)
            (insert_recipe (recipe_row_of (Text i) (isoformat (date recipe)) ts (data recipe)) t))
        = Inr t'"
    by (auto simp: upsert_recipe_def recipe_prelude_def json_dumps_def and_then_eq_Inr bind_def
        text_affinity_def Let_def split: if_splits)
  let ?row = "recipe_row_of (Text i) (isoformat (date recipe)) ts (data recipe)"
  have row: "stored_row i recipe = ?row"
    using lt vs ts by (simp add: stored_row_def)
  have id: "r_id ?row = Some i" by (simp add: recipe_row_of_def text_affinity_def)
  have a: "filter (\<lambda>r. r_id r = Some i) (recipes t') = [stored_row i recipe]"
    using insert_recipe_filter[OF assms(2) id] upsert_links_recipes[OF r] by (simp add: row)
  have ta: "text_affinity (Text i) = Some i" by (simp add: text_affinity_def)
  have b: "filter (\<lambda>l. l_recipe_id l = i) (recipe_ingredients t')
         = new_links i 0 (ingredient_list (data recipe))"
    using upsert_links_filter[OF r ta delete_links_none] py_iter_items[OF ings items r]
    by (simp add: delete_links_filter)
  show ?thesis using a b s' by simp
qed

theorem readd_replaces_witness:
  "map l_position (filter (\<lambda>l. l_recipe_id l = ''1'')
      (recipe_ingredients (projr (upsert_recipe salad empty_tables)))) = [0, 1]
   \<and> (\<exists>t'. db_file (snd (add (example_recipe ''1'' 1 tomato) (snd (add salad fresh_store))))
          = Some (Tables t')
     \<and> filter (\<lambda>r. r_id r = Some ''1'') (recipes t')
         = [stored_row ''1'' (example_recipe ''1'' 1 tomato)]
     \<and> filter (\<lambda>l. l_recipe_id l = ''1'') (recipe_ingredients t')
         = new_links ''1'' 0 (ingredient_list (data (example_recipe ''1'' 1 tomato))))
   \<and> map l_position (new_links ''1'' 0 (ingredient_list (data (example_recipe ''1'' 1 tomato))))
       = [0]
   \<and> r_title_en (stored_row ''1'' (example_recipe ''1'' 1 tomato)) = None
   \<and> r_title_en (stored_row ''1'' salad) = Some ''Salad''"
proof -
  have h1: "db_file (snd (add salad fresh_store))
      = Some (Tables (projr (upsert_recipe salad empty_tables)))" by code_simp
  have h2: "distinct (map r_id (recipes (projr (upsert_recipe salad empty_tables))))" by code_simp
  have h3: "recipe_id_of (data (example_recipe ''1'' 1 tomato)) = Inr (JStr ''1'')" by code_simp
  have h4: "add (example_recipe ''1'' 1 tomato) (snd (add salad fresh_store))
      = (Inr (), snd (add (example_recipe ''1'' 1 tomato) (snd (add salad fresh_store))))"
    by code_simp
  have h5: "map l_position (filter (\<lambda>l. l_recipe_id l = ''1'')
      (recipe_ingredients (projr (upsert_recipe salad empty_tables)))) = [0, 1]" by code_simp
  have h6: "map l_position (new_links ''1'' 0 (ingredient_list (data (example_recipe ''1'' 1 tomato))))
       = [0]" by code_simp
  have h7: "r_title_en (stored_row ''1'' (example_recipe ''1'' 1 tomato)) = None" by code_simp
  have h8: "r_title_en (stored_row ''1'' salad) = Some ''Salad''" by code_simp
  show ?thesis
    using readd_replaces [OF h1 h2 h3 h4] h5 h6 h7 h8 by simp
qed









section \<open>One row for each ingredient key\<close>



lemma set_insert_by: "set (insert_by p x xs) = insert x (set xs)"
  by (induction xs) auto

lemma set_order_by: "set (order_by p xs) = set xs"
  by (induction xs) (simp_all add: order_by_def set_insert_by)

lemma any_values_blank:
  "any_values \<lparr>en = a, de = b, es = c, fr = d, pt = e\<rparr> \<longleftrightarrow> \<not> list_all blank [a, b, c, d, e]"
  by (auto simp: any_values_def blank_def split: option.splits)

section \<open>Plural forms of the listed ingredients\<close>

text \<open>
  Claim C8, as amended. \<^verbatim>\<open>list_ingredients\<close> returns one record for each stored
  row, and the record's \<^verbatim>\<open>number_title\<close> is absent exactly when each of the five
  \<^verbatim>\<open>number_title\<close> columns of the row is \<^verbatim>\<open>NULL\<close> or the empty text, and is the
  mapping of the five columns otherwise; the same holds of \<^verbatim>\<open>uncountable_title\<close>. So
  a plural form recorded as empty texts comes back absent, as one never recorded does
  (\<open>plural_forms_counterexample\<close>).
\<close>

theorem plural_forms:
  assumes "db_file s = Some (Tables t)"
  shows "\<exists>records. list_ingredients s = (Inr records, s)
     \<and> set records = ingredient_record ` set (ingredients t)
     \<and> number_title (ingredient_record row) =
         (if list_all blank [i_number_title_en row, i_number_title_de row, i_number_title_es row,
                             i_number_title_fr row, i_number_title_pt row]
          then None
          else Some \<lparr>en = i_number_title_en row, de = i_number_title_de row,
                     es = i_number_title_es row, fr = i_number_title_fr row,
                     pt = i_number_title_pt row\<rparr>)
     \<and> uncountable_title (ingredient_record row) =
         (if list_all blank [i_uncountable_title_en row, i_uncountable_title_de row,
                             i_uncountable_title_es row, i_uncountable_title_fr row,
                             i_uncountable_title_pt row]
          then None
          else Some \<lparr>en = i_uncountable_title_en row, de = i_uncountable_title_de row,
                     es = i_uncountable_title_es row, fr = i_uncountable_title_fr row,
                     pt = i_uncountable_title_pt row\<rparr>)"
proof -
  have "list_ingredients s
      = (Inr (map ingredient_record (order_by ingredient_before (ingredients t))), s)"
    using assms by (simp add: list_ingredients_def connect_def)
  moreover have "set (map ingredient_record (order_by ingredient_before (ingredients t)))
      = ingredient_record ` set (ingredients t)"
    by (simp add: set_order_by)
  ultimately show ?thesis
    by (simp add: ingredient_record_def Let_def any_values_blank)
qed

theorem plural_forms_witness:
  "(\<exists>records. list_ingredients (snd (add salad fresh_store))
        = (Inr records, snd (add salad fresh_store))
     \<and> set records
        = ingredient_record ` set (ingredients (projr (upsert_recipe salad empty_tables))))
   \<and> map number_title (projr (fst (list_ingredients (snd (add salad fresh_store)))))
      = [None, Some \<lparr>en = None, de = Some ''Tomaten'', es = None, fr = None, pt = None\<rparr>]"
proof -
  have h1: "db_file (snd (add salad fresh_store))
      = Some (Tables (projr (upsert_recipe salad empty_tables)))" by code_simp
  have h2: "map number_title (projr (fst (list_ingredients (snd (add salad fresh_store)))))
      = [None, Some \<lparr>en = None, de = Some ''Tomaten'', es = None, fr = None, pt = None\<rparr>]"
    by code_simp
  from plural_forms [OF h1, of undefined] h2 show ?thesis by blast
qed

theorem plural_forms_counterexample:
  "map i_number_title_de (stored_ingredients (snd (add (salt_recipe JNull) fresh_store))) = [None]
   \<and> map i_number_title_de
        (stored_ingredients (snd (add (salt_recipe (JObj [(''de'', JStr '''')])) fresh_store)))
      = [Some '''']
   \<and> fst (list_ingredients (snd (add (salt_recipe JNull) fresh_store)))
      = fst (list_ingredients (snd (add (salt_recipe (JObj [(''de'', JStr '''')])) fresh_store)))
   \<and> map number_title (projr (fst (list_ingredients
        (snd (add (salt_recipe (JObj [(''de'', JStr '''')])) fresh_store))))) = [None]"
  by code_simp

end
